theory Spec2Isabelle
  imports Main "HOL-Library.Sublist"
begin

section \<open>Python strings\<close>

text \<open>
  A Python \<^verbatim>\<open>str\<close> is a sequence of Unicode code points, so a string is the list of
  the integers \<^verbatim>\<open>ord(c)\<close> and \<open>length\<close> counts what \<^verbatim>\<open>len\<close> counts. The character
  tables are those of CPython 3.11 (Unicode 14.0.0) for all code points; each table lists
  the code points from U+0080 on, in ranges, and the ASCII part is written out in the
  function that reads it.
\<close>

type_synonym pstr = "int list"

definition u :: "string \<Rightarrow> pstr" where
  "u s = map of_char s"

fun in_ranges :: "int \<Rightarrow> (int \<times> int) list \<Rightarrow> bool" where
  "in_ranges c [] = False"
| "in_ranges c ((a, b) # rs) = (a \<le> c \<and> c \<le> b \<or> in_ranges c rs)"

fun shift_in :: "int \<Rightarrow> (int \<times> int \<times> int \<times> int) list \<Rightarrow> int" where
  \<comment> \<open>an entry \<open>(a, b, step, d)\<close> maps \<open>a\<close>, \<open>a + step\<close>, ... up to \<open>b\<close> to themselves
      plus \<open>d\<close>; a code point in no entry is left as it is\<close>
  "shift_in c [] = c"
| "shift_in c ((a, b, step, d) # rs) =
     (if a \<le> c \<and> c \<le> b \<and> (c - a) mod step = 0 then c + d else shift_in c rs)"

definition upper_table :: "(int \<times> int) list" where
  \<comment> \<open>the code points from U+0080 on for which \<^verbatim>\<open>str.isupper\<close> holds\<close>
  "upper_table =
    [(192, 214), (216, 222), (256, 256), (258, 258), (260, 260), (262, 262), (264, 264),
     (266, 266), (268, 268), (270, 270), (272, 272), (274, 274), (276, 276), (278, 278),
     (280, 280), (282, 282), (284, 284), (286, 286), (288, 288), (290, 290), (292, 292),
     (294, 294), (296, 296), (298, 298), (300, 300), (302, 302), (304, 304), (306, 306),
     (308, 308), (310, 310), (313, 313), (315, 315), (317, 317), (319, 319), (321, 321),
     (323, 323), (325, 325), (327, 327), (330, 330), (332, 332), (334, 334), (336, 336),
     (338, 338), (340, 340), (342, 342), (344, 344), (346, 346), (348, 348), (350, 350),
     (352, 352), (354, 354), (356, 356), (358, 358), (360, 360), (362, 362), (364, 364),
     (366, 366), (368, 368), (370, 370), (372, 372), (374, 374), (376, 377), (379, 379),
     (381, 381), (385, 386), (388, 388), (390, 391), (393, 395), (398, 401), (403, 404),
     (406, 408), (412, 413), (415, 416), (418, 418), (420, 420), (422, 423), (425, 425),
     (428, 428), (430, 431), (433, 435), (437, 437), (439, 440), (444, 444), (452, 452),
     (455, 455), (458, 458), (461, 461), (463, 463), (465, 465), (467, 467), (469, 469),
     (471, 471), (473, 473), (475, 475), (478, 478), (480, 480), (482, 482), (484, 484),
     (486, 486), (488, 488), (490, 490), (492, 492), (494, 494), (497, 497), (500, 500),
     (502, 504), (506, 506), (508, 508), (510, 510), (512, 512), (514, 514), (516, 516),
     (518, 518), (520, 520), (522, 522), (524, 524), (526, 526), (528, 528), (530, 530),
     (532, 532), (534, 534), (536, 536), (538, 538), (540, 540), (542, 542), (544, 544),
     (546, 546), (548, 548), (550, 550), (552, 552), (554, 554), (556, 556), (558, 558),
     (560, 560), (562, 562), (570, 571), (573, 574), (577, 577), (579, 582), (584, 584),
     (586, 586), (588, 588), (590, 590), (880, 880), (882, 882), (886, 886), (895, 895),
     (902, 902), (904, 906), (908, 908), (910, 911), (913, 929), (931, 939), (975, 975),
     (978, 980), (984, 984), (986, 986), (988, 988), (990, 990), (992, 992), (994, 994),
     (996, 996), (998, 998), (1000, 1000), (1002, 1002), (1004, 1004), (1006, 1006),
     (1012, 1012), (1015, 1015), (1017, 1018), (1021, 1071), (1120, 1120), (1122, 1122),
     (1124, 1124), (1126, 1126), (1128, 1128), (1130, 1130), (1132, 1132), (1134, 1134),
     (1136, 1136), (1138, 1138), (1140, 1140), (1142, 1142), (1144, 1144), (1146, 1146),
     (1148, 1148), (1150, 1150), (1152, 1152), (1162, 1162), (1164, 1164), (1166, 1166),
     (1168, 1168), (1170, 1170), (1172, 1172), (1174, 1174), (1176, 1176), (1178, 1178),
     (1180, 1180), (1182, 1182), (1184, 1184), (1186, 1186), (1188, 1188), (1190, 1190),
     (1192, 1192), (1194, 1194), (1196, 1196), (1198, 1198), (1200, 1200), (1202, 1202),
     (1204, 1204), (1206, 1206), (1208, 1208), (1210, 1210), (1212, 1212), (1214, 1214),
     (1216, 1217), (1219, 1219), (1221, 1221), (1223, 1223), (1225, 1225), (1227, 1227),
     (1229, 1229), (1232, 1232), (1234, 1234), (1236, 1236), (1238, 1238), (1240, 1240),
     (1242, 1242), (1244, 1244), (1246, 1246), (1248, 1248), (1250, 1250), (1252, 1252),
     (1254, 1254), (1256, 1256), (1258, 1258), (1260, 1260), (1262, 1262), (1264, 1264),
     (1266, 1266), (1268, 1268), (1270, 1270), (1272, 1272), (1274, 1274), (1276, 1276),
     (1278, 1278), (1280, 1280), (1282, 1282), (1284, 1284), (1286, 1286), (1288, 1288),
     (1290, 1290), (1292, 1292), (1294, 1294), (1296, 1296), (1298, 1298), (1300, 1300),
     (1302, 1302), (1304, 1304), (1306, 1306), (1308, 1308), (1310, 1310), (1312, 1312),
     (1314, 1314), (1316, 1316), (1318, 1318), (1320, 1320), (1322, 1322), (1324, 1324),
     (1326, 1326), (1329, 1366), (4256, 4293), (4295, 4295), (4301, 4301), (5024, 5109),
     (7312, 7354), (7357, 7359), (7680, 7680), (7682, 7682), (7684, 7684), (7686, 7686),
     (7688, 7688), (7690, 7690), (7692, 7692), (7694, 7694), (7696, 7696), (7698, 7698),
     (7700, 7700), (7702, 7702), (7704, 7704), (7706, 7706), (7708, 7708), (7710, 7710),
     (7712, 7712), (7714, 7714), (7716, 7716), (7718, 7718), (7720, 7720), (7722, 7722),
     (7724, 7724), (7726, 7726), (7728, 7728), (7730, 7730), (7732, 7732), (7734, 7734),
     (7736, 7736), (7738, 7738), (7740, 7740), (7742, 7742), (7744, 7744), (7746, 7746),
     (7748, 7748), (7750, 7750), (7752, 7752), (7754, 7754), (7756, 7756), (7758, 7758),
     (7760, 7760), (7762, 7762), (7764, 7764), (7766, 7766), (7768, 7768), (7770, 7770),
     (7772, 7772), (7774, 7774), (7776, 7776), (7778, 7778), (7780, 7780), (7782, 7782),
     (7784, 7784), (7786, 7786), (7788, 7788), (7790, 7790), (7792, 7792), (7794, 7794),
     (7796, 7796), (7798, 7798), (7800, 7800), (7802, 7802), (7804, 7804), (7806, 7806),
     (7808, 7808), (7810, 7810), (7812, 7812), (7814, 7814), (7816, 7816), (7818, 7818),
     (7820, 7820), (7822, 7822), (7824, 7824), (7826, 7826), (7828, 7828), (7838, 7838),
     (7840, 7840), (7842, 7842), (7844, 7844), (7846, 7846), (7848, 7848), (7850, 7850),
     (7852, 7852), (7854, 7854), (7856, 7856), (7858, 7858), (7860, 7860), (7862, 7862),
     (7864, 7864), (7866, 7866), (7868, 7868), (7870, 7870), (7872, 7872), (7874, 7874),
     (7876, 7876), (7878, 7878), (7880, 7880), (7882, 7882), (7884, 7884), (7886, 7886),
     (7888, 7888), (7890, 7890), (7892, 7892), (7894, 7894), (7896, 7896), (7898, 7898),
     (7900, 7900), (7902, 7902), (7904, 7904), (7906, 7906), (7908, 7908), (7910, 7910),
     (7912, 7912), (7914, 7914), (7916, 7916), (7918, 7918), (7920, 7920), (7922, 7922),
     (7924, 7924), (7926, 7926), (7928, 7928), (7930, 7930), (7932, 7932), (7934, 7934),
     (7944, 7951), (7960, 7965), (7976, 7983), (7992, 7999), (8008, 8013), (8025, 8025),
     (8027, 8027), (8029, 8029), (8031, 8031), (8040, 8047), (8120, 8123), (8136, 8139),
     (8152, 8155), (8168, 8172), (8184, 8187), (8450, 8450), (8455, 8455), (8459, 8461),
     (8464, 8466), (8469, 8469), (8473, 8477), (8484, 8484), (8486, 8486), (8488, 8488),
     (8490, 8493), (8496, 8499), (8510, 8511), (8517, 8517), (8544, 8559), (8579, 8579),
     (9398, 9423), (11264, 11311), (11360, 11360), (11362, 11364), (11367, 11367),
     (11369, 11369), (11371, 11371), (11373, 11376), (11378, 11378), (11381, 11381),
     (11390, 11392), (11394, 11394), (11396, 11396), (11398, 11398), (11400, 11400),
     (11402, 11402), (11404, 11404), (11406, 11406), (11408, 11408), (11410, 11410),
     (11412, 11412), (11414, 11414), (11416, 11416), (11418, 11418), (11420, 11420),
     (11422, 11422), (11424, 11424), (11426, 11426), (11428, 11428), (11430, 11430),
     (11432, 11432), (11434, 11434), (11436, 11436), (11438, 11438), (11440, 11440),
     (11442, 11442), (11444, 11444), (11446, 11446), (11448, 11448), (11450, 11450),
     (11452, 11452), (11454, 11454), (11456, 11456), (11458, 11458), (11460, 11460),
     (11462, 11462), (11464, 11464), (11466, 11466), (11468, 11468), (11470, 11470),
     (11472, 11472), (11474, 11474), (11476, 11476), (11478, 11478), (11480, 11480),
     (11482, 11482), (11484, 11484), (11486, 11486), (11488, 11488), (11490, 11490),
     (11499, 11499), (11501, 11501), (11506, 11506), (42560, 42560), (42562, 42562),
     (42564, 42564), (42566, 42566), (42568, 42568), (42570, 42570), (42572, 42572),
     (42574, 42574), (42576, 42576), (42578, 42578), (42580, 42580), (42582, 42582),
     (42584, 42584), (42586, 42586), (42588, 42588), (42590, 42590), (42592, 42592),
     (42594, 42594), (42596, 42596), (42598, 42598), (42600, 42600), (42602, 42602),
     (42604, 42604), (42624, 42624), (42626, 42626), (42628, 42628), (42630, 42630),
     (42632, 42632), (42634, 42634), (42636, 42636), (42638, 42638), (42640, 42640),
     (42642, 42642), (42644, 42644), (42646, 42646), (42648, 42648), (42650, 42650),
     (42786, 42786), (42788, 42788), (42790, 42790), (42792, 42792), (42794, 42794),
     (42796, 42796), (42798, 42798), (42802, 42802), (42804, 42804), (42806, 42806),
     (42808, 42808), (42810, 42810), (42812, 42812), (42814, 42814), (42816, 42816),
     (42818, 42818), (42820, 42820), (42822, 42822), (42824, 42824), (42826, 42826),
     (42828, 42828), (42830, 42830), (42832, 42832), (42834, 42834), (42836, 42836),
     (42838, 42838), (42840, 42840), (42842, 42842), (42844, 42844), (42846, 42846),
     (42848, 42848), (42850, 42850), (42852, 42852), (42854, 42854), (42856, 42856),
     (42858, 42858), (42860, 42860), (42862, 42862), (42873, 42873), (42875, 42875),
     (42877, 42878), (42880, 42880), (42882, 42882), (42884, 42884), (42886, 42886),
     (42891, 42891), (42893, 42893), (42896, 42896), (42898, 42898), (42902, 42902),
     (42904, 42904), (42906, 42906), (42908, 42908), (42910, 42910), (42912, 42912),
     (42914, 42914), (42916, 42916), (42918, 42918), (42920, 42920), (42922, 42926),
     (42928, 42932), (42934, 42934), (42936, 42936), (42938, 42938), (42940, 42940),
     (42942, 42942), (42944, 42944), (42946, 42946), (42948, 42951), (42953, 42953),
     (42960, 42960), (42966, 42966), (42968, 42968), (42997, 42997), (65313, 65338),
     (66560, 66599), (66736, 66771), (66928, 66938), (66940, 66954), (66956, 66962),
     (66964, 66965), (68736, 68786), (71840, 71871), (93760, 93791), (119808, 119833),
     (119860, 119885), (119912, 119937), (119964, 119964), (119966, 119967),
     (119970, 119970), (119973, 119974), (119977, 119980), (119982, 119989),
     (120016, 120041), (120068, 120069), (120071, 120074), (120077, 120084),
     (120086, 120092), (120120, 120121), (120123, 120126), (120128, 120132),
     (120134, 120134), (120138, 120144), (120172, 120197), (120224, 120249),
     (120276, 120301), (120328, 120353), (120380, 120405), (120432, 120457),
     (120488, 120512), (120546, 120570), (120604, 120628), (120662, 120686),
     (120720, 120744), (120778, 120778), (125184, 125217), (127280, 127305),
     (127312, 127337), (127344, 127369)]"

definition lower_table :: "(int \<times> int) list" where
  \<comment> \<open>the code points from U+0080 on for which \<^verbatim>\<open>str.islower\<close> holds\<close>
  "lower_table =
    [(170, 170), (181, 181), (186, 186), (223, 246), (248, 255), (257, 257), (259, 259),
     (261, 261), (263, 263), (265, 265), (267, 267), (269, 269), (271, 271), (273, 273),
     (275, 275), (277, 277), (279, 279), (281, 281), (283, 283), (285, 285), (287, 287),
     (289, 289), (291, 291), (293, 293), (295, 295), (297, 297), (299, 299), (301, 301),
     (303, 303), (305, 305), (307, 307), (309, 309), (311, 312), (314, 314), (316, 316),
     (318, 318), (320, 320), (322, 322), (324, 324), (326, 326), (328, 329), (331, 331),
     (333, 333), (335, 335), (337, 337), (339, 339), (341, 341), (343, 343), (345, 345),
     (347, 347), (349, 349), (351, 351), (353, 353), (355, 355), (357, 357), (359, 359),
     (361, 361), (363, 363), (365, 365), (367, 367), (369, 369), (371, 371), (373, 373),
     (375, 375), (378, 378), (380, 380), (382, 384), (387, 387), (389, 389), (392, 392),
     (396, 397), (402, 402), (405, 405), (409, 411), (414, 414), (417, 417), (419, 419),
     (421, 421), (424, 424), (426, 427), (429, 429), (432, 432), (436, 436), (438, 438),
     (441, 442), (445, 447), (454, 454), (457, 457), (460, 460), (462, 462), (464, 464),
     (466, 466), (468, 468), (470, 470), (472, 472), (474, 474), (476, 477), (479, 479),
     (481, 481), (483, 483), (485, 485), (487, 487), (489, 489), (491, 491), (493, 493),
     (495, 496), (499, 499), (501, 501), (505, 505), (507, 507), (509, 509), (511, 511),
     (513, 513), (515, 515), (517, 517), (519, 519), (521, 521), (523, 523), (525, 525),
     (527, 527), (529, 529), (531, 531), (533, 533), (535, 535), (537, 537), (539, 539),
     (541, 541), (543, 543), (545, 545), (547, 547), (549, 549), (551, 551), (553, 553),
     (555, 555), (557, 557), (559, 559), (561, 561), (563, 569), (572, 572), (575, 576),
     (578, 578), (583, 583), (585, 585), (587, 587), (589, 589), (591, 659), (661, 696),
     (704, 705), (736, 740), (837, 837), (881, 881), (883, 883), (887, 887), (890, 893),
     (912, 912), (940, 974), (976, 977), (981, 983), (985, 985), (987, 987), (989, 989),
     (991, 991), (993, 993), (995, 995), (997, 997), (999, 999), (1001, 1001), (1003, 1003),
     (1005, 1005), (1007, 1011), (1013, 1013), (1016, 1016), (1019, 1020), (1072, 1119),
     (1121, 1121), (1123, 1123), (1125, 1125), (1127, 1127), (1129, 1129), (1131, 1131),
     (1133, 1133), (1135, 1135), (1137, 1137), (1139, 1139), (1141, 1141), (1143, 1143),
     (1145, 1145), (1147, 1147), (1149, 1149), (1151, 1151), (1153, 1153), (1163, 1163),
     (1165, 1165), (1167, 1167), (1169, 1169), (1171, 1171), (1173, 1173), (1175, 1175),
     (1177, 1177), (1179, 1179), (1181, 1181), (1183, 1183), (1185, 1185), (1187, 1187),
     (1189, 1189), (1191, 1191), (1193, 1193), (1195, 1195), (1197, 1197), (1199, 1199),
     (1201, 1201), (1203, 1203), (1205, 1205), (1207, 1207), (1209, 1209), (1211, 1211),
     (1213, 1213), (1215, 1215), (1218, 1218), (1220, 1220), (1222, 1222), (1224, 1224),
     (1226, 1226), (1228, 1228), (1230, 1231), (1233, 1233), (1235, 1235), (1237, 1237),
     (1239, 1239), (1241, 1241), (1243, 1243), (1245, 1245), (1247, 1247), (1249, 1249),
     (1251, 1251), (1253, 1253), (1255, 1255), (1257, 1257), (1259, 1259), (1261, 1261),
     (1263, 1263), (1265, 1265), (1267, 1267), (1269, 1269), (1271, 1271), (1273, 1273),
     (1275, 1275), (1277, 1277), (1279, 1279), (1281, 1281), (1283, 1283), (1285, 1285),
     (1287, 1287), (1289, 1289), (1291, 1291), (1293, 1293), (1295, 1295), (1297, 1297),
     (1299, 1299), (1301, 1301), (1303, 1303), (1305, 1305), (1307, 1307), (1309, 1309),
     (1311, 1311), (1313, 1313), (1315, 1315), (1317, 1317), (1319, 1319), (1321, 1321),
     (1323, 1323), (1325, 1325), (1327, 1327), (1376, 1416), (4304, 4346), (4349, 4351),
     (5112, 5117), (7296, 7304), (7424, 7615), (7681, 7681), (7683, 7683), (7685, 7685),
     (7687, 7687), (7689, 7689), (7691, 7691), (7693, 7693), (7695, 7695), (7697, 7697),
     (7699, 7699), (7701, 7701), (7703, 7703), (7705, 7705), (7707, 7707), (7709, 7709),
     (7711, 7711), (7713, 7713), (7715, 7715), (7717, 7717), (7719, 7719), (7721, 7721),
     (7723, 7723), (7725, 7725), (7727, 7727), (7729, 7729), (7731, 7731), (7733, 7733),
     (7735, 7735), (7737, 7737), (7739, 7739), (7741, 7741), (7743, 7743), (7745, 7745),
     (7747, 7747), (7749, 7749), (7751, 7751), (7753, 7753), (7755, 7755), (7757, 7757),
     (7759, 7759), (7761, 7761), (7763, 7763), (7765, 7765), (7767, 7767), (7769, 7769),
     (7771, 7771), (7773, 7773), (7775, 7775), (7777, 7777), (7779, 7779), (7781, 7781),
     (7783, 7783), (7785, 7785), (7787, 7787), (7789, 7789), (7791, 7791), (7793, 7793),
     (7795, 7795), (7797, 7797), (7799, 7799), (7801, 7801), (7803, 7803), (7805, 7805),
     (7807, 7807), (7809, 7809), (7811, 7811), (7813, 7813), (7815, 7815), (7817, 7817),
     (7819, 7819), (7821, 7821), (7823, 7823), (7825, 7825), (7827, 7827), (7829, 7837),
     (7839, 7839), (7841, 7841), (7843, 7843), (7845, 7845), (7847, 7847), (7849, 7849),
     (7851, 7851), (7853, 7853), (7855, 7855), (7857, 7857), (7859, 7859), (7861, 7861),
     (7863, 7863), (7865, 7865), (7867, 7867), (7869, 7869), (7871, 7871), (7873, 7873),
     (7875, 7875), (7877, 7877), (7879, 7879), (7881, 7881), (7883, 7883), (7885, 7885),
     (7887, 7887), (7889, 7889), (7891, 7891), (7893, 7893), (7895, 7895), (7897, 7897),
     (7899, 7899), (7901, 7901), (7903, 7903), (7905, 7905), (7907, 7907), (7909, 7909),
     (7911, 7911), (7913, 7913), (7915, 7915), (7917, 7917), (7919, 7919), (7921, 7921),
     (7923, 7923), (7925, 7925), (7927, 7927), (7929, 7929), (7931, 7931), (7933, 7933),
     (7935, 7943), (7952, 7957), (7968, 7975), (7984, 7991), (8000, 8005), (8016, 8023),
     (8032, 8039), (8048, 8061), (8064, 8071), (8080, 8087), (8096, 8103), (8112, 8116),
     (8118, 8119), (8126, 8126), (8130, 8132), (8134, 8135), (8144, 8147), (8150, 8151),
     (8160, 8167), (8178, 8180), (8182, 8183), (8305, 8305), (8319, 8319), (8336, 8348),
     (8458, 8458), (8462, 8463), (8467, 8467), (8495, 8495), (8500, 8500), (8505, 8505),
     (8508, 8509), (8518, 8521), (8526, 8526), (8560, 8575), (8580, 8580), (9424, 9449),
     (11312, 11359), (11361, 11361), (11365, 11366), (11368, 11368), (11370, 11370),
     (11372, 11372), (11377, 11377), (11379, 11380), (11382, 11389), (11393, 11393),
     (11395, 11395), (11397, 11397), (11399, 11399), (11401, 11401), (11403, 11403),
     (11405, 11405), (11407, 11407), (11409, 11409), (11411, 11411), (11413, 11413),
     (11415, 11415), (11417, 11417), (11419, 11419), (11421, 11421), (11423, 11423),
     (11425, 11425), (11427, 11427), (11429, 11429), (11431, 11431), (11433, 11433),
     (11435, 11435), (11437, 11437), (11439, 11439), (11441, 11441), (11443, 11443),
     (11445, 11445), (11447, 11447), (11449, 11449), (11451, 11451), (11453, 11453),
     (11455, 11455), (11457, 11457), (11459, 11459), (11461, 11461), (11463, 11463),
     (11465, 11465), (11467, 11467), (11469, 11469), (11471, 11471), (11473, 11473),
     (11475, 11475), (11477, 11477), (11479, 11479), (11481, 11481), (11483, 11483),
     (11485, 11485), (11487, 11487), (11489, 11489), (11491, 11492), (11500, 11500),
     (11502, 11502), (11507, 11507), (11520, 11557), (11559, 11559), (11565, 11565),
     (42561, 42561), (42563, 42563), (42565, 42565), (42567, 42567), (42569, 42569),
     (42571, 42571), (42573, 42573), (42575, 42575), (42577, 42577), (42579, 42579),
     (42581, 42581), (42583, 42583), (42585, 42585), (42587, 42587), (42589, 42589),
     (42591, 42591), (42593, 42593), (42595, 42595), (42597, 42597), (42599, 42599),
     (42601, 42601), (42603, 42603), (42605, 42605), (42625, 42625), (42627, 42627),
     (42629, 42629), (42631, 42631), (42633, 42633), (42635, 42635), (42637, 42637),
     (42639, 42639), (42641, 42641), (42643, 42643), (42645, 42645), (42647, 42647),
     (42649, 42649), (42651, 42653), (42787, 42787), (42789, 42789), (42791, 42791),
     (42793, 42793), (42795, 42795), (42797, 42797), (42799, 42801), (42803, 42803),
     (42805, 42805), (42807, 42807), (42809, 42809), (42811, 42811), (42813, 42813),
     (42815, 42815), (42817, 42817), (42819, 42819), (42821, 42821), (42823, 42823),
     (42825, 42825), (42827, 42827), (42829, 42829), (42831, 42831), (42833, 42833),
     (42835, 42835), (42837, 42837), (42839, 42839), (42841, 42841), (42843, 42843),
     (42845, 42845), (42847, 42847), (42849, 42849), (42851, 42851), (42853, 42853),
     (42855, 42855), (42857, 42857), (42859, 42859), (42861, 42861), (42863, 42872),
     (42874, 42874), (42876, 42876), (42879, 42879), (42881, 42881), (42883, 42883),
     (42885, 42885), (42887, 42887), (42892, 42892), (42894, 42894), (42897, 42897),
     (42899, 42901), (42903, 42903), (42905, 42905), (42907, 42907), (42909, 42909),
     (42911, 42911), (42913, 42913), (42915, 42915), (42917, 42917), (42919, 42919),
     (42921, 42921), (42927, 42927), (42933, 42933), (42935, 42935), (42937, 42937),
     (42939, 42939), (42941, 42941), (42943, 42943), (42945, 42945), (42947, 42947),
     (42952, 42952), (42954, 42954), (42961, 42961), (42963, 42963), (42965, 42965),
     (42967, 42967), (42969, 42969), (42998, 42998), (43000, 43002), (43824, 43866),
     (43868, 43880), (43888, 43967), (64256, 64262), (64275, 64279), (65345, 65370),
     (66600, 66639), (66776, 66811), (66967, 66977), (66979, 66993), (66995, 67001),
     (67003, 67004), (67456, 67456), (67459, 67461), (67463, 67504), (67506, 67514),
     (68800, 68850), (71872, 71903), (93792, 93823), (119834, 119859), (119886, 119892),
     (119894, 119911), (119938, 119963), (119990, 119993), (119995, 119995),
     (119997, 120003), (120005, 120015), (120042, 120067), (120094, 120119),
     (120146, 120171), (120198, 120223), (120250, 120275), (120302, 120327),
     (120354, 120379), (120406, 120431), (120458, 120485), (120514, 120538),
     (120540, 120545), (120572, 120596), (120598, 120603), (120630, 120654),
     (120656, 120661), (120688, 120712), (120714, 120719), (120746, 120770),
     (120772, 120777), (120779, 120779), (122624, 122633), (122635, 122654), (125218, 125251)]"

definition title_table :: "(int \<times> int) list" where
  \<comment> \<open>the title-case letters (category Lt)\<close>
  "title_table =
    [(453, 453), (456, 456), (459, 459), (498, 498), (8072, 8079), (8088, 8095),
     (8104, 8111), (8124, 8124), (8140, 8140), (8188, 8188)]"

definition digit_table :: "(int \<times> int) list" where
  \<comment> \<open>the decimal digits from U+0080 on\<close>
  "digit_table =
    [(1632, 1641), (1776, 1785), (1984, 1993), (2406, 2415), (2534, 2543), (2662, 2671),
     (2790, 2799), (2918, 2927), (3046, 3055), (3174, 3183), (3302, 3311), (3430, 3439),
     (3558, 3567), (3664, 3673), (3792, 3801), (3872, 3881), (4160, 4169), (4240, 4249),
     (6112, 6121), (6160, 6169), (6470, 6479), (6608, 6617), (6784, 6793), (6800, 6809),
     (6992, 7001), (7088, 7097), (7232, 7241), (7248, 7257), (42528, 42537), (43216, 43225),
     (43264, 43273), (43472, 43481), (43504, 43513), (43600, 43609), (44016, 44025),
     (65296, 65305), (66720, 66729), (68912, 68921), (69734, 69743), (69872, 69881),
     (69942, 69951), (70096, 70105), (70384, 70393), (70736, 70745), (70864, 70873),
     (71248, 71257), (71360, 71369), (71472, 71481), (71904, 71913), (72016, 72025),
     (72784, 72793), (73040, 73049), (73120, 73129), (92768, 92777), (92864, 92873),
     (93008, 93017), (120782, 120831), (123200, 123209), (123632, 123641), (125264, 125273),
     (130032, 130041)]"

definition word_table :: "(int \<times> int) list" where
  \<comment> \<open>the alphanumeric code points from U+0080 on\<close>
  "word_table =
    [(170, 170), (178, 179), (181, 181), (185, 186), (188, 190), (192, 214), (216, 246),
     (248, 705), (710, 721), (736, 740), (748, 748), (750, 750), (880, 884), (886, 887),
     (890, 893), (895, 895), (902, 902), (904, 906), (908, 908), (910, 929), (931, 1013),
     (1015, 1153), (1162, 1327), (1329, 1366), (1369, 1369), (1376, 1416), (1488, 1514),
     (1519, 1522), (1568, 1610), (1632, 1641), (1646, 1647), (1649, 1747), (1749, 1749),
     (1765, 1766), (1774, 1788), (1791, 1791), (1808, 1808), (1810, 1839), (1869, 1957),
     (1969, 1969), (1984, 2026), (2036, 2037), (2042, 2042), (2048, 2069), (2074, 2074),
     (2084, 2084), (2088, 2088), (2112, 2136), (2144, 2154), (2160, 2183), (2185, 2190),
     (2208, 2249), (2308, 2361), (2365, 2365), (2384, 2384), (2392, 2401), (2406, 2415),
     (2417, 2432), (2437, 2444), (2447, 2448), (2451, 2472), (2474, 2480), (2482, 2482),
     (2486, 2489), (2493, 2493), (2510, 2510), (2524, 2525), (2527, 2529), (2534, 2545),
     (2548, 2553), (2556, 2556), (2565, 2570), (2575, 2576), (2579, 2600), (2602, 2608),
     (2610, 2611), (2613, 2614), (2616, 2617), (2649, 2652), (2654, 2654), (2662, 2671),
     (2674, 2676), (2693, 2701), (2703, 2705), (2707, 2728), (2730, 2736), (2738, 2739),
     (2741, 2745), (2749, 2749), (2768, 2768), (2784, 2785), (2790, 2799), (2809, 2809),
     (2821, 2828), (2831, 2832), (2835, 2856), (2858, 2864), (2866, 2867), (2869, 2873),
     (2877, 2877), (2908, 2909), (2911, 2913), (2918, 2927), (2929, 2935), (2947, 2947),
     (2949, 2954), (2958, 2960), (2962, 2965), (2969, 2970), (2972, 2972), (2974, 2975),
     (2979, 2980), (2984, 2986), (2990, 3001), (3024, 3024), (3046, 3058), (3077, 3084),
     (3086, 3088), (3090, 3112), (3114, 3129), (3133, 3133), (3160, 3162), (3165, 3165),
     (3168, 3169), (3174, 3183), (3192, 3198), (3200, 3200), (3205, 3212), (3214, 3216),
     (3218, 3240), (3242, 3251), (3253, 3257), (3261, 3261), (3293, 3294), (3296, 3297),
     (3302, 3311), (3313, 3314), (3332, 3340), (3342, 3344), (3346, 3386), (3389, 3389),
     (3406, 3406), (3412, 3414), (3416, 3425), (3430, 3448), (3450, 3455), (3461, 3478),
     (3482, 3505), (3507, 3515), (3517, 3517), (3520, 3526), (3558, 3567), (3585, 3632),
     (3634, 3635), (3648, 3654), (3664, 3673), (3713, 3714), (3716, 3716), (3718, 3722),
     (3724, 3747), (3749, 3749), (3751, 3760), (3762, 3763), (3773, 3773), (3776, 3780),
     (3782, 3782), (3792, 3801), (3804, 3807), (3840, 3840), (3872, 3891), (3904, 3911),
     (3913, 3948), (3976, 3980), (4096, 4138), (4159, 4169), (4176, 4181), (4186, 4189),
     (4193, 4193), (4197, 4198), (4206, 4208), (4213, 4225), (4238, 4238), (4240, 4249),
     (4256, 4293), (4295, 4295), (4301, 4301), (4304, 4346), (4348, 4680), (4682, 4685),
     (4688, 4694), (4696, 4696), (4698, 4701), (4704, 4744), (4746, 4749), (4752, 4784),
     (4786, 4789), (4792, 4798), (4800, 4800), (4802, 4805), (4808, 4822), (4824, 4880),
     (4882, 4885), (4888, 4954), (4969, 4988), (4992, 5007), (5024, 5109), (5112, 5117),
     (5121, 5740), (5743, 5759), (5761, 5786), (5792, 5866), (5870, 5880), (5888, 5905),
     (5919, 5937), (5952, 5969), (5984, 5996), (5998, 6000), (6016, 6067), (6103, 6103),
     (6108, 6108), (6112, 6121), (6128, 6137), (6160, 6169), (6176, 6264), (6272, 6276),
     (6279, 6312), (6314, 6314), (6320, 6389), (6400, 6430), (6470, 6509), (6512, 6516),
     (6528, 6571), (6576, 6601), (6608, 6618), (6656, 6678), (6688, 6740), (6784, 6793),
     (6800, 6809), (6823, 6823), (6917, 6963), (6981, 6988), (6992, 7001), (7043, 7072),
     (7086, 7141), (7168, 7203), (7232, 7241), (7245, 7293), (7296, 7304), (7312, 7354),
     (7357, 7359), (7401, 7404), (7406, 7411), (7413, 7414), (7418, 7418), (7424, 7615),
     (7680, 7957), (7960, 7965), (7968, 8005), (8008, 8013), (8016, 8023), (8025, 8025),
     (8027, 8027), (8029, 8029), (8031, 8061), (8064, 8116), (8118, 8124), (8126, 8126),
     (8130, 8132), (8134, 8140), (8144, 8147), (8150, 8155), (8160, 8172), (8178, 8180),
     (8182, 8188), (8304, 8305), (8308, 8313), (8319, 8329), (8336, 8348), (8450, 8450),
     (8455, 8455), (8458, 8467), (8469, 8469), (8473, 8477), (8484, 8484), (8486, 8486),
     (8488, 8488), (8490, 8493), (8495, 8505), (8508, 8511), (8517, 8521), (8526, 8526),
     (8528, 8585), (9312, 9371), (9450, 9471), (10102, 10131), (11264, 11492),
     (11499, 11502), (11506, 11507), (11517, 11517), (11520, 11557), (11559, 11559),
     (11565, 11565), (11568, 11623), (11631, 11631), (11648, 11670), (11680, 11686),
     (11688, 11694), (11696, 11702), (11704, 11710), (11712, 11718), (11720, 11726),
     (11728, 11734), (11736, 11742), (11823, 11823), (12293, 12295), (12321, 12329),
     (12337, 12341), (12344, 12348), (12353, 12438), (12445, 12447), (12449, 12538),
     (12540, 12543), (12549, 12591), (12593, 12686), (12690, 12693), (12704, 12735),
     (12784, 12799), (12832, 12841), (12872, 12879), (12881, 12895), (12928, 12937),
     (12977, 12991), (13312, 19903), (19968, 42124), (42192, 42237), (42240, 42508),
     (42512, 42539), (42560, 42606), (42623, 42653), (42656, 42735), (42775, 42783),
     (42786, 42888), (42891, 42954), (42960, 42961), (42963, 42963), (42965, 42969),
     (42994, 43009), (43011, 43013), (43015, 43018), (43020, 43042), (43056, 43061),
     (43072, 43123), (43138, 43187), (43216, 43225), (43250, 43255), (43259, 43259),
     (43261, 43262), (43264, 43301), (43312, 43334), (43360, 43388), (43396, 43442),
     (43471, 43481), (43488, 43492), (43494, 43518), (43520, 43560), (43584, 43586),
     (43588, 43595), (43600, 43609), (43616, 43638), (43642, 43642), (43646, 43695),
     (43697, 43697), (43701, 43702), (43705, 43709), (43712, 43712), (43714, 43714),
     (43739, 43741), (43744, 43754), (43762, 43764), (43777, 43782), (43785, 43790),
     (43793, 43798), (43808, 43814), (43816, 43822), (43824, 43866), (43868, 43881),
     (43888, 44002), (44016, 44025), (44032, 55203), (55216, 55238), (55243, 55291),
     (63744, 64109), (64112, 64217), (64256, 64262), (64275, 64279), (64285, 64285),
     (64287, 64296), (64298, 64310), (64312, 64316), (64318, 64318), (64320, 64321),
     (64323, 64324), (64326, 64433), (64467, 64829), (64848, 64911), (64914, 64967),
     (65008, 65019), (65136, 65140), (65142, 65276), (65296, 65305), (65313, 65338),
     (65345, 65370), (65382, 65470), (65474, 65479), (65482, 65487), (65490, 65495),
     (65498, 65500), (65536, 65547), (65549, 65574), (65576, 65594), (65596, 65597),
     (65599, 65613), (65616, 65629), (65664, 65786), (65799, 65843), (65856, 65912),
     (65930, 65931), (66176, 66204), (66208, 66256), (66273, 66299), (66304, 66339),
     (66349, 66378), (66384, 66421), (66432, 66461), (66464, 66499), (66504, 66511),
     (66513, 66517), (66560, 66717), (66720, 66729), (66736, 66771), (66776, 66811),
     (66816, 66855), (66864, 66915), (66928, 66938), (66940, 66954), (66956, 66962),
     (66964, 66965), (66967, 66977), (66979, 66993), (66995, 67001), (67003, 67004),
     (67072, 67382), (67392, 67413), (67424, 67431), (67456, 67461), (67463, 67504),
     (67506, 67514), (67584, 67589), (67592, 67592), (67594, 67637), (67639, 67640),
     (67644, 67644), (67647, 67669), (67672, 67702), (67705, 67742), (67751, 67759),
     (67808, 67826), (67828, 67829), (67835, 67867), (67872, 67897), (67968, 68023),
     (68028, 68047), (68050, 68096), (68112, 68115), (68117, 68119), (68121, 68149),
     (68160, 68168), (68192, 68222), (68224, 68255), (68288, 68295), (68297, 68324),
     (68331, 68335), (68352, 68405), (68416, 68437), (68440, 68466), (68472, 68497),
     (68521, 68527), (68608, 68680), (68736, 68786), (68800, 68850), (68858, 68899),
     (68912, 68921), (69216, 69246), (69248, 69289), (69296, 69297), (69376, 69415),
     (69424, 69445), (69457, 69460), (69488, 69505), (69552, 69579), (69600, 69622),
     (69635, 69687), (69714, 69743), (69745, 69746), (69749, 69749), (69763, 69807),
     (69840, 69864), (69872, 69881), (69891, 69926), (69942, 69951), (69956, 69956),
     (69959, 69959), (69968, 70002), (70006, 70006), (70019, 70066), (70081, 70084),
     (70096, 70106), (70108, 70108), (70113, 70132), (70144, 70161), (70163, 70187),
     (70272, 70278), (70280, 70280), (70282, 70285), (70287, 70301), (70303, 70312),
     (70320, 70366), (70384, 70393), (70405, 70412), (70415, 70416), (70419, 70440),
     (70442, 70448), (70450, 70451), (70453, 70457), (70461, 70461), (70480, 70480),
     (70493, 70497), (70656, 70708), (70727, 70730), (70736, 70745), (70751, 70753),
     (70784, 70831), (70852, 70853), (70855, 70855), (70864, 70873), (71040, 71086),
     (71128, 71131), (71168, 71215), (71236, 71236), (71248, 71257), (71296, 71338),
     (71352, 71352), (71360, 71369), (71424, 71450), (71472, 71483), (71488, 71494),
     (71680, 71723), (71840, 71922), (71935, 71942), (71945, 71945), (71948, 71955),
     (71957, 71958), (71960, 71983), (71999, 71999), (72001, 72001), (72016, 72025),
     (72096, 72103), (72106, 72144), (72161, 72161), (72163, 72163), (72192, 72192),
     (72203, 72242), (72250, 72250), (72272, 72272), (72284, 72329), (72349, 72349),
     (72368, 72440), (72704, 72712), (72714, 72750), (72768, 72768), (72784, 72812),
     (72818, 72847), (72960, 72966), (72968, 72969), (72971, 73008), (73030, 73030),
     (73040, 73049), (73056, 73061), (73063, 73064), (73066, 73097), (73112, 73112),
     (73120, 73129), (73440, 73458), (73648, 73648), (73664, 73684), (73728, 74649),
     (74752, 74862), (74880, 75075), (77712, 77808), (77824, 78894), (82944, 83526),
     (92160, 92728), (92736, 92766), (92768, 92777), (92784, 92862), (92864, 92873),
     (92880, 92909), (92928, 92975), (92992, 92995), (93008, 93017), (93019, 93025),
     (93027, 93047), (93053, 93071), (93760, 93846), (93952, 94026), (94032, 94032),
     (94099, 94111), (94176, 94177), (94179, 94179), (94208, 100343), (100352, 101589),
     (101632, 101640), (110576, 110579), (110581, 110587), (110589, 110590),
     (110592, 110882), (110928, 110930), (110948, 110951), (110960, 111355),
     (113664, 113770), (113776, 113788), (113792, 113800), (113808, 113817),
     (119520, 119539), (119648, 119672), (119808, 119892), (119894, 119964),
     (119966, 119967), (119970, 119970), (119973, 119974), (119977, 119980),
     (119982, 119993), (119995, 119995), (119997, 120003), (120005, 120069),
     (120071, 120074), (120077, 120084), (120086, 120092), (120094, 120121),
     (120123, 120126), (120128, 120132), (120134, 120134), (120138, 120144),
     (120146, 120485), (120488, 120512), (120514, 120538), (120540, 120570),
     (120572, 120596), (120598, 120628), (120630, 120654), (120656, 120686),
     (120688, 120712), (120714, 120744), (120746, 120770), (120772, 120779),
     (120782, 120831), (122624, 122654), (123136, 123180), (123191, 123197),
     (123200, 123209), (123214, 123214), (123536, 123565), (123584, 123627),
     (123632, 123641), (124896, 124902), (124904, 124907), (124909, 124910),
     (124912, 124926), (124928, 125124), (125127, 125135), (125184, 125251),
     (125259, 125259), (125264, 125273), (126065, 126123), (126125, 126127),
     (126129, 126132), (126209, 126253), (126255, 126269), (126464, 126467),
     (126469, 126495), (126497, 126498), (126500, 126500), (126503, 126503),
     (126505, 126514), (126516, 126519), (126521, 126521), (126523, 126523),
     (126530, 126530), (126535, 126535), (126537, 126537), (126539, 126539),
     (126541, 126543), (126545, 126546), (126548, 126548), (126551, 126551),
     (126553, 126553), (126555, 126555), (126557, 126557), (126559, 126559),
     (126561, 126562), (126564, 126564), (126567, 126570), (126572, 126578),
     (126580, 126583), (126585, 126588), (126590, 126590), (126592, 126601),
     (126603, 126619), (126625, 126627), (126629, 126633), (126635, 126651),
     (127232, 127244), (130032, 130041), (131072, 173791), (173824, 177976),
     (177984, 178205), (178208, 183969), (183984, 191456), (194560, 195101), (196608, 201546)]"

definition case_ignorable_table :: "(int \<times> int) list" where
  \<comment> \<open>the case-ignorable code points\<close>
  "case_ignorable_table =
    [(39, 39), (46, 46), (58, 58), (94, 94), (96, 96), (168, 168), (173, 173), (175, 175),
     (180, 180), (183, 184), (688, 879), (884, 885), (890, 890), (900, 901), (903, 903),
     (1155, 1161), (1369, 1369), (1375, 1375), (1425, 1469), (1471, 1471), (1473, 1474),
     (1476, 1477), (1479, 1479), (1524, 1524), (1536, 1541), (1552, 1562), (1564, 1564),
     (1600, 1600), (1611, 1631), (1648, 1648), (1750, 1757), (1759, 1768), (1770, 1773),
     (1807, 1807), (1809, 1809), (1840, 1866), (1958, 1968), (2027, 2037), (2042, 2042),
     (2045, 2045), (2070, 2093), (2137, 2139), (2184, 2184), (2192, 2193), (2200, 2207),
     (2249, 2306), (2362, 2362), (2364, 2364), (2369, 2376), (2381, 2381), (2385, 2391),
     (2402, 2403), (2417, 2417), (2433, 2433), (2492, 2492), (2497, 2500), (2509, 2509),
     (2530, 2531), (2558, 2558), (2561, 2562), (2620, 2620), (2625, 2626), (2631, 2632),
     (2635, 2637), (2641, 2641), (2672, 2673), (2677, 2677), (2689, 2690), (2748, 2748),
     (2753, 2757), (2759, 2760), (2765, 2765), (2786, 2787), (2810, 2815), (2817, 2817),
     (2876, 2876), (2879, 2879), (2881, 2884), (2893, 2893), (2901, 2902), (2914, 2915),
     (2946, 2946), (3008, 3008), (3021, 3021), (3072, 3072), (3076, 3076), (3132, 3132),
     (3134, 3136), (3142, 3144), (3146, 3149), (3157, 3158), (3170, 3171), (3201, 3201),
     (3260, 3260), (3263, 3263), (3270, 3270), (3276, 3277), (3298, 3299), (3328, 3329),
     (3387, 3388), (3393, 3396), (3405, 3405), (3426, 3427), (3457, 3457), (3530, 3530),
     (3538, 3540), (3542, 3542), (3633, 3633), (3636, 3642), (3654, 3662), (3761, 3761),
     (3764, 3772), (3782, 3782), (3784, 3789), (3864, 3865), (3893, 3893), (3895, 3895),
     (3897, 3897), (3953, 3966), (3968, 3972), (3974, 3975), (3981, 3991), (3993, 4028),
     (4038, 4038), (4141, 4144), (4146, 4151), (4153, 4154), (4157, 4158), (4184, 4185),
     (4190, 4192), (4209, 4212), (4226, 4226), (4229, 4230), (4237, 4237), (4253, 4253),
     (4348, 4348), (4957, 4959), (5906, 5908), (5938, 5939), (5970, 5971), (6002, 6003),
     (6068, 6069), (6071, 6077), (6086, 6086), (6089, 6099), (6103, 6103), (6109, 6109),
     (6155, 6159), (6211, 6211), (6277, 6278), (6313, 6313), (6432, 6434), (6439, 6440),
     (6450, 6450), (6457, 6459), (6679, 6680), (6683, 6683), (6742, 6742), (6744, 6750),
     (6752, 6752), (6754, 6754), (6757, 6764), (6771, 6780), (6783, 6783), (6823, 6823),
     (6832, 6862), (6912, 6915), (6964, 6964), (6966, 6970), (6972, 6972), (6978, 6978),
     (7019, 7027), (7040, 7041), (7074, 7077), (7080, 7081), (7083, 7085), (7142, 7142),
     (7144, 7145), (7149, 7149), (7151, 7153), (7212, 7219), (7222, 7223), (7288, 7293),
     (7376, 7378), (7380, 7392), (7394, 7400), (7405, 7405), (7412, 7412), (7416, 7417),
     (7468, 7530), (7544, 7544), (7579, 7679), (8125, 8125), (8127, 8129), (8141, 8143),
     (8157, 8159), (8173, 8175), (8189, 8190), (8203, 8207), (8216, 8217), (8228, 8228),
     (8231, 8231), (8234, 8238), (8288, 8292), (8294, 8303), (8305, 8305), (8319, 8319),
     (8336, 8348), (8400, 8432), (11388, 11389), (11503, 11505), (11631, 11631),
     (11647, 11647), (11744, 11775), (11823, 11823), (12293, 12293), (12330, 12333),
     (12337, 12341), (12347, 12347), (12441, 12446), (12540, 12542), (40981, 40981),
     (42232, 42237), (42508, 42508), (42607, 42610), (42612, 42621), (42623, 42623),
     (42652, 42655), (42736, 42737), (42752, 42785), (42864, 42864), (42888, 42890),
     (42994, 42996), (43000, 43001), (43010, 43010), (43014, 43014), (43019, 43019),
     (43045, 43046), (43052, 43052), (43204, 43205), (43232, 43249), (43263, 43263),
     (43302, 43309), (43335, 43345), (43392, 43394), (43443, 43443), (43446, 43449),
     (43452, 43453), (43471, 43471), (43493, 43494), (43561, 43566), (43569, 43570),
     (43573, 43574), (43587, 43587), (43596, 43596), (43632, 43632), (43644, 43644),
     (43696, 43696), (43698, 43700), (43703, 43704), (43710, 43711), (43713, 43713),
     (43741, 43741), (43756, 43757), (43763, 43764), (43766, 43766), (43867, 43871),
     (43881, 43883), (44005, 44005), (44008, 44008), (44013, 44013), (64286, 64286),
     (64434, 64450), (65024, 65039), (65043, 65043), (65056, 65071), (65106, 65106),
     (65109, 65109), (65279, 65279), (65287, 65287), (65294, 65294), (65306, 65306),
     (65342, 65342), (65344, 65344), (65392, 65392), (65438, 65439), (65507, 65507),
     (65529, 65531), (66045, 66045), (66272, 66272), (66422, 66426), (67456, 67461),
     (67463, 67504), (67506, 67514), (68097, 68099), (68101, 68102), (68108, 68111),
     (68152, 68154), (68159, 68159), (68325, 68326), (68900, 68903), (69291, 69292),
     (69446, 69456), (69506, 69509), (69633, 69633), (69688, 69702), (69744, 69744),
     (69747, 69748), (69759, 69761), (69811, 69814), (69817, 69818), (69821, 69821),
     (69826, 69826), (69837, 69837), (69888, 69890), (69927, 69931), (69933, 69940),
     (70003, 70003), (70016, 70017), (70070, 70078), (70089, 70092), (70095, 70095),
     (70191, 70193), (70196, 70196), (70198, 70199), (70206, 70206), (70367, 70367),
     (70371, 70378), (70400, 70401), (70459, 70460), (70464, 70464), (70502, 70508),
     (70512, 70516), (70712, 70719), (70722, 70724), (70726, 70726), (70750, 70750),
     (70835, 70840), (70842, 70842), (70847, 70848), (70850, 70851), (71090, 71093),
     (71100, 71101), (71103, 71104), (71132, 71133), (71219, 71226), (71229, 71229),
     (71231, 71232), (71339, 71339), (71341, 71341), (71344, 71349), (71351, 71351),
     (71453, 71455), (71458, 71461), (71463, 71467), (71727, 71735), (71737, 71738),
     (71995, 71996), (71998, 71998), (72003, 72003), (72148, 72151), (72154, 72155),
     (72160, 72160), (72193, 72202), (72243, 72248), (72251, 72254), (72263, 72263),
     (72273, 72278), (72281, 72283), (72330, 72342), (72344, 72345), (72752, 72758),
     (72760, 72765), (72767, 72767), (72850, 72871), (72874, 72880), (72882, 72883),
     (72885, 72886), (73009, 73014), (73018, 73018), (73020, 73021), (73023, 73029),
     (73031, 73031), (73104, 73105), (73109, 73109), (73111, 73111), (73459, 73460),
     (78896, 78904), (92912, 92916), (92976, 92982), (92992, 92995), (94031, 94031),
     (94095, 94111), (94176, 94177), (94179, 94180), (110576, 110579), (110581, 110587),
     (110589, 110590), (113821, 113822), (113824, 113827), (118528, 118573),
     (118576, 118598), (119143, 119145), (119155, 119170), (119173, 119179),
     (119210, 119213), (119362, 119364), (121344, 121398), (121403, 121452),
     (121461, 121461), (121476, 121476), (121499, 121503), (121505, 121519),
     (122880, 122886), (122888, 122904), (122907, 122913), (122915, 122916),
     (122918, 122922), (123184, 123197), (123566, 123566), (123628, 123631),
     (125136, 125142), (125252, 125259), (127995, 127999), (917505, 917505),
     (917536, 917631), (917760, 917999)]"

definition sre_cased_table :: "(int \<times> int) list" where
  \<comment> \<open>the code points from U+0080 on that differ from their lower or their upper case\<close>
  "sre_cased_table =
    [(181, 181), (192, 214), (216, 246), (248, 311), (313, 396), (398, 410), (412, 425),
     (428, 441), (444, 445), (447, 447), (452, 544), (546, 563), (570, 596), (598, 599),
     (601, 601), (603, 604), (608, 609), (611, 611), (613, 614), (616, 620), (623, 623),
     (625, 626), (629, 629), (637, 637), (640, 640), (642, 643), (647, 652), (658, 658),
     (669, 670), (837, 837), (880, 883), (886, 887), (891, 893), (895, 895), (902, 902),
     (904, 906), (908, 908), (910, 929), (931, 977), (981, 1013), (1015, 1019), (1021, 1153),
     (1162, 1327), (1329, 1366), (1377, 1415), (4256, 4293), (4295, 4295), (4301, 4301),
     (4304, 4346), (4349, 4351), (5024, 5109), (5112, 5117), (7296, 7304), (7312, 7354),
     (7357, 7359), (7545, 7545), (7549, 7549), (7566, 7566), (7680, 7835), (7838, 7838),
     (7840, 7957), (7960, 7965), (7968, 8005), (8008, 8013), (8016, 8023), (8025, 8025),
     (8027, 8027), (8029, 8029), (8031, 8061), (8064, 8116), (8118, 8124), (8126, 8126),
     (8130, 8132), (8134, 8140), (8144, 8147), (8150, 8155), (8160, 8172), (8178, 8180),
     (8182, 8188), (8486, 8486), (8490, 8491), (8498, 8498), (8526, 8526), (8544, 8575),
     (8579, 8580), (9398, 9449), (11264, 11376), (11378, 11379), (11381, 11382),
     (11390, 11491), (11499, 11502), (11506, 11507), (11520, 11557), (11559, 11559),
     (11565, 11565), (42560, 42605), (42624, 42651), (42786, 42799), (42802, 42863),
     (42873, 42887), (42891, 42893), (42896, 42900), (42902, 42926), (42928, 42954),
     (42960, 42961), (42966, 42969), (42997, 42998), (43859, 43859), (43888, 43967),
     (64256, 64262), (64275, 64279), (65313, 65338), (65345, 65370), (66560, 66639),
     (66736, 66771), (66776, 66811), (66928, 66938), (66940, 66954), (66956, 66962),
     (66964, 66965), (66967, 66977), (66979, 66993), (66995, 67001), (67003, 67004),
     (68736, 68786), (68800, 68850), (71840, 71903), (93760, 93823), (125184, 125251)]"

definition tolower_table :: "(int \<times> int \<times> int \<times> int) list" where
  \<comment> \<open>the simple lower-case mapping from U+0080 on\<close>
  "tolower_table =
    [(192, 214, 1, 32), (216, 222, 1, 32), (256, 302, 2, 1), (304, 304, 1, - 199),
     (306, 310, 2, 1), (313, 327, 2, 1), (330, 374, 2, 1), (376, 376, 1, - 121),
     (377, 381, 2, 1), (385, 385, 1, 210), (386, 388, 2, 1), (390, 390, 1, 206),
     (391, 391, 1, 1), (393, 394, 1, 205), (395, 395, 1, 1), (398, 398, 1, 79),
     (399, 399, 1, 202), (400, 400, 1, 203), (401, 401, 1, 1), (403, 403, 1, 205),
     (404, 404, 1, 207), (406, 406, 1, 211), (407, 407, 1, 209), (408, 408, 1, 1),
     (412, 412, 1, 211), (413, 413, 1, 213), (415, 415, 1, 214), (416, 420, 2, 1),
     (422, 422, 1, 218), (423, 423, 1, 1), (425, 425, 1, 218), (428, 428, 1, 1),
     (430, 430, 1, 218), (431, 431, 1, 1), (433, 434, 1, 217), (435, 437, 2, 1),
     (439, 439, 1, 219), (440, 440, 1, 1), (444, 444, 1, 1), (452, 452, 1, 2),
     (453, 453, 1, 1), (455, 455, 1, 2), (456, 456, 1, 1), (458, 458, 1, 2),
     (459, 475, 2, 1), (478, 494, 2, 1), (497, 497, 1, 2), (498, 500, 2, 1),
     (502, 502, 1, - 97), (503, 503, 1, - 56), (504, 542, 2, 1), (544, 544, 1, - 130),
     (546, 562, 2, 1), (570, 570, 1, 10795), (571, 571, 1, 1), (573, 573, 1, - 163),
     (574, 574, 1, 10792), (577, 577, 1, 1), (579, 579, 1, - 195), (580, 580, 1, 69),
     (581, 581, 1, 71), (582, 590, 2, 1), (880, 882, 2, 1), (886, 886, 1, 1),
     (895, 895, 1, 116), (902, 902, 1, 38), (904, 906, 1, 37), (908, 908, 1, 64),
     (910, 911, 1, 63), (913, 929, 1, 32), (931, 939, 1, 32), (975, 975, 1, 8),
     (984, 1006, 2, 1), (1012, 1012, 1, - 60), (1015, 1015, 1, 1), (1017, 1017, 1, - 7),
     (1018, 1018, 1, 1), (1021, 1023, 1, - 130), (1024, 1039, 1, 80), (1040, 1071, 1, 32),
     (1120, 1152, 2, 1), (1162, 1214, 2, 1), (1216, 1216, 1, 15), (1217, 1229, 2, 1),
     (1232, 1326, 2, 1), (1329, 1366, 1, 48), (4256, 4293, 1, 7264), (4295, 4295, 1, 7264),
     (4301, 4301, 1, 7264), (5024, 5103, 1, 38864), (5104, 5109, 1, 8),
     (7312, 7354, 1, - 3008), (7357, 7359, 1, - 3008), (7680, 7828, 2, 1),
     (7838, 7838, 1, - 7615), (7840, 7934, 2, 1), (7944, 7951, 1, - 8), (7960, 7965, 1, - 8),
     (7976, 7983, 1, - 8), (7992, 7999, 1, - 8), (8008, 8013, 1, - 8), (8025, 8031, 2, - 8),
     (8040, 8047, 1, - 8), (8072, 8079, 1, - 8), (8088, 8095, 1, - 8), (8104, 8111, 1, - 8),
     (8120, 8121, 1, - 8), (8122, 8123, 1, - 74), (8124, 8124, 1, - 9),
     (8136, 8139, 1, - 86), (8140, 8140, 1, - 9), (8152, 8153, 1, - 8),
     (8154, 8155, 1, - 100), (8168, 8169, 1, - 8), (8170, 8171, 1, - 112),
     (8172, 8172, 1, - 7), (8184, 8185, 1, - 128), (8186, 8187, 1, - 126),
     (8188, 8188, 1, - 9), (8486, 8486, 1, - 7517), (8490, 8490, 1, - 8383),
     (8491, 8491, 1, - 8262), (8498, 8498, 1, 28), (8544, 8559, 1, 16), (8579, 8579, 1, 1),
     (9398, 9423, 1, 26), (11264, 11311, 1, 48), (11360, 11360, 1, 1),
     (11362, 11362, 1, - 10743), (11363, 11363, 1, - 3814), (11364, 11364, 1, - 10727),
     (11367, 11371, 2, 1), (11373, 11373, 1, - 10780), (11374, 11374, 1, - 10749),
     (11375, 11375, 1, - 10783), (11376, 11376, 1, - 10782), (11378, 11378, 1, 1),
     (11381, 11381, 1, 1), (11390, 11391, 1, - 10815), (11392, 11490, 2, 1),
     (11499, 11501, 2, 1), (11506, 11506, 1, 1), (42560, 42604, 2, 1), (42624, 42650, 2, 1),
     (42786, 42798, 2, 1), (42802, 42862, 2, 1), (42873, 42875, 2, 1),
     (42877, 42877, 1, - 35332), (42878, 42886, 2, 1), (42891, 42891, 1, 1),
     (42893, 42893, 1, - 42280), (42896, 42898, 2, 1), (42902, 42920, 2, 1),
     (42922, 42922, 1, - 42308), (42923, 42923, 1, - 42319), (42924, 42924, 1, - 42315),
     (42925, 42925, 1, - 42305), (42926, 42926, 1, - 42308), (42928, 42928, 1, - 42258),
     (42929, 42929, 1, - 42282), (42930, 42930, 1, - 42261), (42931, 42931, 1, 928),
     (42932, 42946, 2, 1), (42948, 42948, 1, - 48), (42949, 42949, 1, - 42307),
     (42950, 42950, 1, - 35384), (42951, 42953, 2, 1), (42960, 42960, 1, 1),
     (42966, 42968, 2, 1), (42997, 42997, 1, 1), (65313, 65338, 1, 32),
     (66560, 66599, 1, 40), (66736, 66771, 1, 40), (66928, 66938, 1, 39),
     (66940, 66954, 1, 39), (66956, 66962, 1, 39), (66964, 66965, 1, 39),
     (68736, 68786, 1, 64), (71840, 71871, 1, 32), (93760, 93791, 1, 32),
     (125184, 125217, 1, 34)]"

definition extra_cases :: "(int \<times> int list) list" where
  \<comment> \<open>\<^verbatim>\<open>re._casefix._EXTRA_CASES\<close> from U+0080 on: the other lower-case code points
      with the same upper case\<close>
  "extra_cases =
    [(181, [956]), (305, [105]), (383, [115]), (837, [953, 8126]), (912, [8147]),
     (944, [8163]), (946, [976]), (949, [1013]), (952, [977]), (953, [837, 8126]),
     (954, [1008]), (956, [181]), (960, [982]), (961, [1009]), (962, [963]), (963, [962]),
     (966, [981]), (976, [946]), (977, [952]), (981, [966]), (982, [960]), (1008, [954]),
     (1009, [961]), (1013, [949]), (1074, [7296]), (1076, [7297]), (1086, [7298]),
     (1089, [7299]), (1090, [7300, 7301]), (1098, [7302]), (1123, [7303]), (7296, [1074]),
     (7297, [1076]), (7298, [1086]), (7299, [1089]), (7300, [1090, 7301]),
     (7301, [1090, 7300]), (7302, [1098]), (7303, [1123]), (7304, [42571]), (7777, [7835]),
     (7835, [7777]), (8126, [837, 953]), (8147, [912]), (8163, [944]), (42571, [7304]),
     (64261, [64262]), (64262, [64261])]"

definition isspace :: "int \<Rightarrow> bool" where
  \<comment> \<open>\<^verbatim>\<open>str.isspace\<close>, which is also \<^verbatim>\<open>\s\<close> of a str pattern and what
      \<^verbatim>\<open>str.strip()\<close> removes\<close>
  "isspace c = (9 \<le> c \<and> c \<le> 13 \<or> 28 \<le> c \<and> c \<le> 32 \<or> c = 133 \<or> c = 160 \<or> c = 5760 \<or>
     8192 \<le> c \<and> c \<le> 8202 \<or> 8232 \<le> c \<and> c \<le> 8233 \<or> c = 8239 \<or> c = 8287 \<or> c = 12288)"

definition isupper :: "int \<Rightarrow> bool" where
  \<comment> \<open>\<^verbatim>\<open>str.isupper\<close> of one character\<close>
  "isupper c = (if c < 128 then 65 \<le> c \<and> c \<le> 90 else in_ranges c upper_table)"

definition islower :: "int \<Rightarrow> bool" where
  \<comment> \<open>\<^verbatim>\<open>str.islower\<close> of one character\<close>
  "islower c = (if c < 128 then 97 \<le> c \<and> c \<le> 122 else in_ranges c lower_table)"

definition isdigit :: "int \<Rightarrow> bool" where
  \<comment> \<open>\<^verbatim>\<open>\d\<close>\<close>
  "isdigit c = (if c < 128 then 48 \<le> c \<and> c \<le> 57 else in_ranges c digit_table)"

definition isword :: "int \<Rightarrow> bool" where
  \<comment> \<open>\<^verbatim>\<open>\w\<close>: alphanumeric or underscore\<close>
  "isword c =
     (if c < 128 then 48 \<le> c \<and> c \<le> 57 \<or> 65 \<le> c \<and> c \<le> 90 \<or> c = 95 \<or> 97 \<le> c \<and> c \<le> 122
      else in_ranges c word_table)"

definition unicode_tolower :: "int \<Rightarrow> int" where
  \<comment> \<open>\<^verbatim>\<open>_sre.unicode_tolower\<close>: the simple lower case of a code point\<close>
  "unicode_tolower c =
     (if c < 128 then (if 65 \<le> c \<and> c \<le> 90 then c + 32 else c) else shift_in c tolower_table)"

definition unicode_iscased :: "int \<Rightarrow> bool" where
  \<comment> \<open>\<^verbatim>\<open>_sre.unicode_iscased\<close>\<close>
  "unicode_iscased c =
     (if c < 128 then 65 \<le> c \<and> c \<le> 90 \<or> 97 \<le> c \<and> c \<le> 122 else in_ranges c sre_cased_table)"

definition case_fixes :: "int \<Rightarrow> int list" where
  \<comment> \<open>the entry of \<^verbatim>\<open>_EXTRA_CASES\<close> for a lower-case code point, empty when it has
      none; 105 is \<^verbatim>\<open>i\<close> and 115 is \<^verbatim>\<open>s\<close>\<close>
  "case_fixes lo =
     (if lo < 128 then (if lo = 105 then [305] else if lo = 115 then [383] else [])
      else (case map_of extra_cases lo of None \<Rightarrow> [] | Some ks \<Rightarrow> ks))"

definition lit_ignore :: "int \<Rightarrow> int \<Rightarrow> bool" where
  \<comment> \<open>the literal \<open>p\<close> of a pattern compiled with \<^verbatim>\<open>re.IGNORECASE\<close> matches \<open>c\<close>: an
      uncased literal matches itself; a cased one matches the code points whose lower case
      is its lower case or one of the extra cases of it\<close>
  "lit_ignore p c =
     (if unicode_iscased p
      then unicode_tolower c \<in> set (unicode_tolower p # case_fixes (unicode_tolower p))
      else c = p)"

definition iscased :: "int \<Rightarrow> bool" where
  \<comment> \<open>the property Cased: lower case, upper case or title case\<close>
  "iscased c = (isupper c \<or> islower c \<or> in_ranges c title_table)"

definition iscaseignorable :: "int \<Rightarrow> bool" where
  "iscaseignorable c = in_ranges c case_ignorable_table"

definition final_sigma :: "pstr \<Rightarrow> pstr \<Rightarrow> bool" where
  \<comment> \<open>a capital sigma is final when a cased character comes before it and none after
      it, the case-ignorable characters next to it skipped; \<open>before\<close> is the text before
      it, reversed\<close>
  "final_sigma before after =
     ((case dropWhile iscaseignorable before of [] \<Rightarrow> False | c # _ \<Rightarrow> iscased c)
      \<and> (case dropWhile iscaseignorable after of [] \<Rightarrow> True | c # _ \<Rightarrow> \<not> iscased c))"

fun lower_from :: "pstr \<Rightarrow> pstr \<Rightarrow> pstr" where
  \<comment> \<open>931 is the capital sigma, 304 the capital I with dot above, the one code point
      whose lower case is two code points\<close>
  "lower_from before [] = []"
| "lower_from before (c # cs) =
     (if c = 931 then [if final_sigma before cs then 962 else 963]
      else if c = 304 then [105, 775]
      else [unicode_tolower c]) @ lower_from (c # before) cs"

definition lower :: "pstr \<Rightarrow> pstr" where
  \<comment> \<open>\<^verbatim>\<open>str.lower\<close>\<close>
  "lower s = lower_from [] s"

definition lstrip :: "pstr \<Rightarrow> pstr" where
  "lstrip s = dropWhile isspace s"

definition rstrip :: "pstr \<Rightarrow> pstr" where
  "rstrip s = rev (dropWhile isspace (rev s))"

definition strip :: "pstr \<Rightarrow> pstr" where
  \<comment> \<open>\<^verbatim>\<open>str.strip()\<close>\<close>
  "strip s = rstrip (lstrip s)"

definition rstrip_chars :: "pstr \<Rightarrow> pstr \<Rightarrow> pstr" where
  \<comment> \<open>\<^verbatim>\<open>s.rstrip(chars)\<close>\<close>
  "rstrip_chars chars s = rev (dropWhile (\<lambda>c. c \<in> set chars) (rev s))"

definition strip_chars :: "pstr \<Rightarrow> pstr \<Rightarrow> pstr" where
  \<comment> \<open>\<^verbatim>\<open>s.strip(chars)\<close>\<close>
  "strip_chars chars s = rstrip_chars chars (dropWhile (\<lambda>c. c \<in> set chars) s)"

definition startswith :: "pstr \<Rightarrow> pstr \<Rightarrow> bool" where
  \<comment> \<open>\<^verbatim>\<open>s.startswith(p)\<close>\<close>
  "startswith s p = (take (length p) s = p)"

fun rfind_from :: "pstr \<Rightarrow> pstr \<Rightarrow> nat \<Rightarrow> int" where
  "rfind_from s m 0 = (if startswith s m then 0 else - 1)"
| "rfind_from s m (Suc i) =
     (if startswith (drop (Suc i) s) m then int (Suc i) else rfind_from s m i)"

definition rfind :: "pstr \<Rightarrow> pstr \<Rightarrow> int" where
  \<comment> \<open>\<^verbatim>\<open>s.rfind(m)\<close>: the highest index at which \<open>m\<close> occurs, or \<open>-1\<close>\<close>
  "rfind s m = (if length s < length m then - 1 else rfind_from s m (length s - length m))"

fun str_split_char :: "int \<Rightarrow> pstr \<Rightarrow> pstr list" where
  \<comment> \<open>\<^verbatim>\<open>s.split(sep)\<close> for a separator of one character\<close>
  "str_split_char sep [] = [[]]"
| "str_split_char sep (c # cs) =
     (if c = sep then [] # str_split_char sep cs
      else (case str_split_char sep cs of
              [] \<Rightarrow> [[c]]
            | p # ps \<Rightarrow> (c # p) # ps))"

fun str_join :: "pstr \<Rightarrow> pstr list \<Rightarrow> pstr" where
  \<comment> \<open>\<^verbatim>\<open>sep.join(xs)\<close>\<close>
  "str_join sep [] = []"
| "str_join sep [x] = x"
| "str_join sep (x # y # ys) = x @ sep @ str_join sep (y # ys)"

fun str_replace_char :: "int \<Rightarrow> pstr \<Rightarrow> pstr \<Rightarrow> pstr" where
  \<comment> \<open>\<^verbatim>\<open>s.replace(old, new)\<close> for \<open>old\<close> of one character\<close>
  "str_replace_char old new [] = []"
| "str_replace_char old new (c # cs) =
     (if c = old then new @ str_replace_char old new cs
      else c # str_replace_char old new cs)"

section \<open>The fragment of \<^verbatim>\<open>re\<close> that the script uses\<close>

text \<open>
  Patterns are built from literals, character classes, bounded or unbounded repetition
  of one character class (greedy or lazy), sequence, alternation, the greedy option,
  one capturing group and the start anchor. The flags are \<^verbatim>\<open>re.IGNORECASE\<close> and
  \<^verbatim>\<open>re.DOTALL\<close>. A matcher state is the position reached, the text still
  unread and the text of group 1. \<open>mt\<close> lists every way a pattern matches at a state, in
  the order in which the backtracking matcher of \<^verbatim>\<open>re\<close> tries them, so the
  match that \<^verbatim>\<open>re\<close> reports is the head of the list.
\<close>

datatype flag = IGNORECASE | DOTALL

datatype cclass =
    Ch int
  | NotCh int
  | Range int int
  | Space
  | NotSpace
  | Word
  | Digit
  | Dot

datatype rx =
    Lit pstr
  | Cls cclass
  | Rep cclass nat "nat option" bool
  | Seq rx rx
  | Alt rx rx
  | Opt rx
  | Grp rx
  | Bos

fun cmatch :: "flag list \<Rightarrow> cclass \<Rightarrow> int \<Rightarrow> bool" where
  \<comment> \<open>with \<^verbatim>\<open>re.IGNORECASE\<close>, a range that holds a cased code point matches the
      code points whose lower case is the lower case, or an extra case of the lower case,
      of one of its members\<close>
  "cmatch fl (Ch p) c = (if IGNORECASE \<in> set fl then lit_ignore p c else c = p)"
| "cmatch fl (NotCh p) c = (if IGNORECASE \<in> set fl then \<not> lit_ignore p c else c \<noteq> p)"
| "cmatch fl (Range a b) c =
     (if IGNORECASE \<in> set fl \<and> list_ex unicode_iscased [a..b]
      then list_ex (\<lambda>x. unicode_tolower c \<in> set (unicode_tolower x # case_fixes (unicode_tolower x)))
             [a..b]
      else a \<le> c \<and> c \<le> b)"
| "cmatch fl Space c = isspace c"
| "cmatch fl NotSpace c = (\<not> isspace c)"
| "cmatch fl Word c = isword c"
| "cmatch fl Digit c = isdigit c"
| "cmatch fl Dot c = (if DOTALL \<in> set fl then True else c \<noteq> 10)"

fun lit_prefix :: "flag list \<Rightarrow> pstr \<Rightarrow> pstr \<Rightarrow> bool" where
  "lit_prefix fl [] s = True"
| "lit_prefix fl (p # w) [] = False"
| "lit_prefix fl (p # w) (c # s) = (cmatch fl (Ch p) c \<and> lit_prefix fl w s)"

definition rep_counts :: "bool \<Rightarrow> nat \<Rightarrow> nat option \<Rightarrow> nat \<Rightarrow> nat list" where
  \<comment> \<open>how many characters a repetition may take when \<open>n\<close> characters in a row match\<close>
  "rep_counts greedy lo hi n =
     (let m = (case hi of None \<Rightarrow> n | Some h \<Rightarrow> min h n);
          ks = [lo..<Suc m]
      in if greedy then rev ks else ks)"

type_synonym mstate = "nat \<times> pstr \<times> pstr option"

fun mt :: "flag list \<Rightarrow> rx \<Rightarrow> mstate \<Rightarrow> mstate list" where
  "mt fl (Lit w) (i, s, g) =
     (if lit_prefix fl w s then [(i + length w, drop (length w) s, g)] else [])"
| "mt fl (Cls c) (i, s, g) =
     (case s of [] \<Rightarrow> [] | x # xs \<Rightarrow> if cmatch fl c x then [(Suc i, xs, g)] else [])"
| "mt fl (Rep c lo hi greedy) (i, s, g) =
     map (\<lambda>k. (i + k, drop k s, g))
       (rep_counts greedy lo hi (length (takeWhile (cmatch fl c) s)))"
| "mt fl (Seq a b) st = concat (map (mt fl b) (mt fl a st))"
| "mt fl (Alt a b) st = mt fl a st @ mt fl b st"
| "mt fl (Opt a) st = mt fl a st @ [st]"
| "mt fl (Grp a) (i, s, g) =
     map (\<lambda>(j, s', g'). (j, s', Some (take (j - i) s))) (mt fl a (i, s, g))"
| "mt fl Bos (i, s, g) = (if i = 0 then [(i, s, g)] else [])"

fun seqs :: "rx list \<Rightarrow> rx" where
  "seqs [] = Lit []"
| "seqs [r] = r"
| "seqs (r # rs) = Seq r (seqs rs)"

fun alts :: "rx list \<Rightarrow> rx" where
  "alts [] = Lit []"
| "alts [r] = r"
| "alts (r # rs) = Alt r (alts rs)"

definition re_match_at :: "flag list \<Rightarrow> rx \<Rightarrow> nat \<Rightarrow> pstr \<Rightarrow> (nat \<times> pstr option) option" where
  \<comment> \<open>the match starting at position \<open>i\<close>, where \<open>s\<close> is the text from \<open>i\<close> on:
      its end and group 1\<close>
  "re_match_at fl r i s =
     (case mt fl r (i, s, None) of [] \<Rightarrow> None | (j, s', g) # _ \<Rightarrow> Some (j, g))"

definition re_match :: "flag list \<Rightarrow> rx \<Rightarrow> pstr \<Rightarrow> (nat \<times> pstr option) option" where
  \<comment> \<open>\<^verbatim>\<open>re.match\<close>\<close>
  "re_match fl r s = re_match_at fl r 0 s"

fun re_search_from :: "flag list \<Rightarrow> rx \<Rightarrow> nat \<Rightarrow> pstr \<Rightarrow> (nat \<times> nat \<times> pstr option) option" where
  "re_search_from fl r i [] =
     (case re_match_at fl r i [] of None \<Rightarrow> None | Some (j, g) \<Rightarrow> Some (i, j, g))"
| "re_search_from fl r i (c # cs) =
     (case re_match_at fl r i (c # cs) of
        None \<Rightarrow> re_search_from fl r (Suc i) cs
      | Some (j, g) \<Rightarrow> Some (i, j, g))"

definition re_search :: "flag list \<Rightarrow> rx \<Rightarrow> pstr \<Rightarrow> (nat \<times> nat \<times> pstr option) option" where
  \<comment> \<open>\<^verbatim>\<open>re.search\<close>: start, end and group 1 of the leftmost match\<close>
  "re_search fl r s = re_search_from fl r 0 s"

function re_sub_from :: "flag list \<Rightarrow> rx \<Rightarrow> pstr \<Rightarrow> nat \<Rightarrow> pstr \<Rightarrow> pstr" where
  "re_sub_from fl r repl i [] =
     (case re_match_at fl r i [] of None \<Rightarrow> [] | Some _ \<Rightarrow> repl)"
| "re_sub_from fl r repl i (c # cs) =
     (case re_match_at fl r i (c # cs) of
        None \<Rightarrow> c # re_sub_from fl r repl (Suc i) cs
      | Some (j, g) \<Rightarrow>
          if j \<le> i then repl @ c # re_sub_from fl r repl (Suc i) cs
          else repl @ re_sub_from fl r repl j (drop (j - i) (c # cs)))"
  by pat_completeness auto
termination
  by (relation "measure (\<lambda>(fl, r, repl, i, s). length s)") auto

definition re_sub :: "flag list \<Rightarrow> rx \<Rightarrow> pstr \<Rightarrow> pstr \<Rightarrow> pstr" where
  \<comment> \<open>\<^verbatim>\<open>re.sub(r, repl, s)\<close> with a replacement free of group references: the
      text is read from the left, a match is replaced and the reading goes on at its end.
      No pattern that the script substitutes or splits on matches the empty string (each
      begins with a literal or a repetition of at least one character); after an empty
      match the reading would go on one character further.\<close>
  "re_sub fl r repl s = re_sub_from fl r repl 0 s"

function re_split_from :: "flag list \<Rightarrow> rx \<Rightarrow> nat \<Rightarrow> pstr \<Rightarrow> pstr \<Rightarrow> pstr list" where
  "re_split_from fl r i [] cur =
     (case re_match_at fl r i [] of None \<Rightarrow> [rev cur] | Some _ \<Rightarrow> [rev cur, []])"
| "re_split_from fl r i (c # cs) cur =
     (case re_match_at fl r i (c # cs) of
        None \<Rightarrow> re_split_from fl r (Suc i) cs (c # cur)
      | Some (j, g) \<Rightarrow>
          if j \<le> i then rev cur # re_split_from fl r (Suc i) cs [c]
          else rev cur # re_split_from fl r j (drop (j - i) (c # cs)) [])"
  by pat_completeness auto
termination
  by (relation "measure (\<lambda>(fl, r, i, s, cur). length s)") auto

definition re_split :: "flag list \<Rightarrow> rx \<Rightarrow> pstr \<Rightarrow> pstr list" where
  \<comment> \<open>\<^verbatim>\<open>re.split(r, s)\<close> for a pattern without capturing group; \<open>cur\<close> holds the
      piece being read, reversed\<close>
  "re_split fl r s = re_split_from fl r 0 s []"

section \<open>Section Locator\<close>

definition get_entity_list_text :: "pstr \<Rightarrow> pstr" where
  "get_entity_list_text full_text =
     (let marker = u ''Appendix 1'';
          idx = rfind full_text marker
      in if idx = - 1 then full_text else drop (nat idx) full_text)"

section \<open>Text Cleaner\<close>

definition ws_plus :: rx where
  \<comment> \<open>\<^verbatim>\<open>\s+\<close>\<close>
  "ws_plus = Rep Space 1 None True"

definition ws_star :: rx where
  \<comment> \<open>\<^verbatim>\<open>\s*\<close>\<close>
  "ws_star = Rep Space 0 None True"

definition register_header :: rx where
  \<comment> \<open>\<^verbatim>\<open>\d{4} Federal Register\s*/.*?Notices\s*\<close>\<close>
  "register_header = seqs [Rep Digit 4 (Some 4) True, Lit (u '' Federal Register''), ws_star,
     Lit (u ''/''), Rep Dot 0 None False, Lit (u ''Notices''), ws_star]"

definition verdate_footer :: rx where
  \<comment> \<open>\<^verbatim>\<open>VerDate\s+\S+.*?NOTICES1\s*\<close>\<close>
  "verdate_footer = seqs [Lit (u ''VerDate''), ws_plus, Rep NotSpace 1 None True,
     Rep Dot 0 None False, Lit (u ''NOTICES1''), ws_star]"

definition lotter_line :: rx where
  \<comment> \<open>\<^verbatim>\<open>lotter on\s+\S+.*?\n\<close>\<close>
  "lotter_line = seqs [Lit (u ''lotter on''), ws_plus, Rep NotSpace 1 None True,
     Rep Dot 0 None False, Lit [10]]"

definition clean_text :: "pstr \<Rightarrow> pstr" where
  "clean_text text =
     (let text = re_sub [] register_header (u '' '') text;
          text = re_sub [DOTALL] verdate_footer (u '' '') text;
          text = re_sub [] lotter_line (u '' '') text
      in text)"

section \<open>Entry Segmenter\<close>

datatype error = IndexError | TypeError

datatype tag = TBullet | TList

type_synonym raw_entry = "tag \<times> pstr"

definition section_cut :: rx where
  \<comment> \<open>\<^verbatim>\<open>This update also|UFLPA Section|Appendix\<close>\<close>
  "section_cut = alts [Lit (u ''This update also''), Lit (u ''UFLPA Section''),
     Lit (u ''Appendix'')]"

definition list_header :: rx where
  \<comment> \<open>\<^verbatim>\<open>UFLPA Section 2\(d\)\(2\)\(B\)\(i\)\s+A List of Entities\<close>\<close>
  "list_header = seqs [Lit (u ''UFLPA Section 2(d)(2)(B)(i)''), ws_plus,
     Lit (u ''A List of Entities'')]"

definition skip_line :: rx where
  \<comment> \<open>\<^verbatim>\<open>UFLPA Section|Entities identified|The FLETF|above may|continue to|\<close>
      \<^verbatim>\<open>information about|that meet|^Section \d\<close>\<close>
  "skip_line = alts [Lit (u ''UFLPA Section''), Lit (u ''Entities identified''),
     Lit (u ''The FLETF''), Lit (u ''above may''), Lit (u ''continue to''),
     Lit (u ''information about''), Lit (u ''that meet''),
     seqs [Bos, Lit (u ''Section ''), Cls Digit]]"

definition suffix_keywords :: "pstr list" where
  "suffix_keywords = [u ''Co.'', u ''Ltd.'', u ''Inc.'', u ''Corp.'', u ''Group'', u ''Center'',
     u ''Park'', u ''Holdings'', u ''Technology'', u ''Industry'', u ''Trading'',
     u ''Corporation'', u ''Mine'', u ''Mining'', u ''Textile'', u ''Silicon'', u ''Energy'',
     u ''Semiconductor'', u ''Foods'', u ''Logistics'', u ''XPCC'']"

definition company_suffix :: rx where
  \<comment> \<open>\<^verbatim>\<open>Co\.|Ltd\.|Inc\.|Corp\.|Group|Center|Park|Holdings|Technology|Industry|\<close>
      \<^verbatim>\<open>Trading|Corporation|Mine|Mining|Textile|Silicon|Energy|Semiconductor|Foods|\<close>
      \<^verbatim>\<open>Logistics|XPCC\<close>\<close>
  "company_suffix = alts (map Lit suffix_keywords)"

definition continuation :: rx where
  \<comment> \<open>\<^verbatim>\<open>^[A-Z][a-z]+.*;\<close>\<close>
  "continuation = seqs [Bos, Cls (Range 65 90), Rep (Range 97 122) 1 None True,
     Rep Dot 0 None True, Lit (u '';'')]"

definition bullet_part :: "pstr \<Rightarrow> pstr" where
  \<comment> \<open>the body of the loop over the bullet parts; \<^verbatim>\<open>re.split\<close> returns at least one
      piece (lemma \<open>re_split_nonempty\<close>), so \<^verbatim>\<open>[0]\<close> is its head\<close>
  "bullet_part part =
     (let part = strip (re_sub [] ws_plus (u '' '') part);
          part = strip (hd (re_split [] section_cut part))
      in part)"

definition bullet_entries :: "pstr \<Rightarrow> raw_entry list" where
  \<comment> \<open>Part 1; 8226 is the bullet U+2022\<close>
  "bullet_entries text =
     map (Pair TBullet)
       (filter (\<lambda>part. part \<noteq> []) (map bullet_part (tl (str_split_char 8226 text))))"

definition truthy :: "pstr option \<Rightarrow> bool" where
  \<comment> \<open>\<^verbatim>\<open>if current:\<close> holds for a string that is neither None nor empty\<close>
  "truthy current = (case current of None \<Rightarrow> False | Some c \<Rightarrow> c \<noteq> [])"

definition flush :: "raw_entry list \<Rightarrow> pstr option \<Rightarrow> raw_entry list" where
  \<comment> \<open>\<^verbatim>\<open>if current: entries.append(("list", current))\<close>\<close>
  "flush entries current =
     (case current of
        None \<Rightarrow> entries
      | Some c \<Rightarrow> if c \<noteq> [] then entries @ [(TList, c)] else entries)"

definition list_step ::
    "raw_entry list \<times> pstr option \<Rightarrow> pstr \<Rightarrow> error + raw_entry list \<times> pstr option" where
  \<comment> \<open>one turn of the loop over \<open>lines\<close>; \<^verbatim>\<open>line[0]\<close> raises on an empty line\<close>
  "list_step st line =
     (case st of (entries, current) \<Rightarrow>
        if re_match [IGNORECASE] skip_line line \<noteq> None then
          Inr (flush entries current, if truthy current then None else current)
        else
          (case line of
             [] \<Rightarrow> Inl IndexError
           | c0 # _ \<Rightarrow>
               if isupper c0 \<and> re_search [] company_suffix line \<noteq> None
                  \<and> \<not> startswith line (u ''The '') \<and> \<not> startswith line (u ''These '')
               then Inr (flush entries current, Some line)
               else
                 (case current of
                    None \<Rightarrow> Inr (entries, current)
                  | Some cur \<Rightarrow>
                      if cur = [] then Inr (entries, current)
                      else if startswith line (u ''('') \<or> islower c0
                              \<or> startswith line (u ''Ltd.'') \<or> startswith line (u ''Co.,'')
                              \<or> startswith line (u ''and '')
                              \<or> re_match [] continuation line \<noteq> None
                      then Inr (entries, Some (cur @ u '' '' @ line))
                      else Inr (entries @ [(TList, cur)], None))))"

fun list_loop ::
    "raw_entry list \<times> pstr option \<Rightarrow> pstr list \<Rightarrow> error + raw_entry list \<times> pstr option" where
  "list_loop st [] = Inr st"
| "list_loop st (line # lines) =
     (case list_step st line of Inl e \<Rightarrow> Inl e | Inr st' \<Rightarrow> list_loop st' lines)"

definition list_entries :: "raw_entry list \<Rightarrow> pstr list \<Rightarrow> error + raw_entry list" where
  \<comment> \<open>the accumulator of Part 2: the loop from \<open>current = None\<close>, then the last flush\<close>
  "list_entries entries lines =
     (case list_loop (entries, None) lines of
        Inl e \<Rightarrow> Inl e
      | Inr (entries', current) \<Rightarrow> Inr (flush entries' current))"

definition split_into_raw_entries :: "pstr \<Rightarrow> error + raw_entry list" where
  "split_into_raw_entries text =
     (let entries = bullet_entries text
      in case re_search [] list_header text of
           None \<Rightarrow> Inr entries
         | Some (start, _) \<Rightarrow>
             (let list_text = drop start text;
                  list_text = clean_text list_text;
                  lines = map strip
                    (filter (\<lambda>l. strip l \<noteq> []) (str_split_char 10 list_text))
              in list_entries entries lines))"

section \<open>Entry Parser\<close>

record entity =
  brand :: pstr
  aliases :: "pstr list"

definition ALIAS_PATTERN :: rx where
  \<comment> \<open>\<^verbatim>\<open>\((?:also known as|formerly known as|including \w+ aliases?):?\s*([^)]+)\)\<close>\<close>
  "ALIAS_PATTERN = seqs [Lit (u ''(''),
     alts [Lit (u ''also known as''), Lit (u ''formerly known as''),
           seqs [Lit (u ''including ''), Rep Word 1 None True, Lit (u '' aliase''),
                 Opt (Lit (u ''s''))]],
     Opt (Lit (u '':'')), ws_star, Grp (Rep (NotCh 41) 1 None True), Lit (u '')'')]"

definition alias_sep :: rx where
  \<comment> \<open>\<^verbatim>\<open>;\s*(?:and\s+)?|,\s*and\s+|\s+and\s+\<close>\<close>
  "alias_sep = alts [
     seqs [Lit (u '';''), ws_star, Opt (seqs [Lit (u ''and''), ws_plus])],
     seqs [Lit (u '',''), ws_star, Lit (u ''and''), ws_plus],
     seqs [ws_plus, Lit (u ''and''), ws_plus]]"

definition brand_keywords :: "pstr list" where
  "brand_keywords = suffix_keywords @ [u ''Ninestar'', u ''Camel'']"

definition brand_suffix :: rx where
  \<comment> \<open>the pattern of \<open>company_suffix\<close> followed by \<^verbatim>\<open>|Ninestar|Camel\<close>\<close>
  "brand_suffix = alts (map Lit brand_keywords)"

definition parse_entry :: "pstr \<Rightarrow> error + entity option" where
  \<comment> \<open>\<open>b\<close> and \<open>as\<close> are the variables \<^verbatim>\<open>brand\<close> and \<^verbatim>\<open>aliases\<close>;
      \<^verbatim>\<open>re.split\<close> raises on the None of an unset group\<close>
  "parse_entry raw0 =
     (let raw = strip (re_sub [] ws_plus (u '' '') raw0)
      in if raw = [] \<or> length raw < 5 then Inr None
         else
           (case (case re_search [IGNORECASE] ALIAS_PATTERN raw of
                    Some (start, _, group1) \<Rightarrow>
                      (case group1 of
                         None \<Rightarrow> Inl TypeError
                       | Some raw_aliases \<Rightarrow>
                           (let parts = re_split [] alias_sep raw_aliases;
                                as =
                                  map (\<lambda>p. strip (strip_chars (u '';,'') (strip p)))
                                    (filter (\<lambda>p. strip p \<noteq> [] \<and> 3 < length (strip p)) parts);
                                b = strip (rstrip_chars (u ''.,;('') (strip (take start raw)))
                            in Inr (b, as)))
                  | None \<Rightarrow> Inr (strip (rstrip_chars (u ''.,;'') (strip raw)), []))
            of
              Inl e \<Rightarrow> Inl e
            | Inr (b, as) \<Rightarrow>
                (let b = strip (re_sub [] ws_plus (u '' '') b)
                 in if b = [] \<or> length b < 5 then Inr None
                    else if re_search [IGNORECASE] brand_suffix b = None then Inr None
                    else Inr (Some \<lparr>brand = b, aliases = as\<rparr>))))"

section \<open>SQL Renderer\<close>

definition escape_sql :: "pstr \<Rightarrow> pstr" where
  \<comment> \<open>39 is the single quote\<close>
  "escape_sql s = str_replace_char 39 [39, 39] s"

function str_of_nat :: "nat \<Rightarrow> pstr" where
  \<comment> \<open>\<^verbatim>\<open>str(n)\<close> of a natural number\<close>
  "str_of_nat n =
     (if n < 10 then [48 + int n] else str_of_nat (n div 10) @ [48 + int (n mod 10)])"
  by pat_completeness auto
termination
  by (relation "measure id") auto

definition sql_reason :: pstr where
  \<comment> \<open>167 is the section sign U+00A7\<close>
  "sql_reason = u ''Listed on UFLPA Entity List. Subject to rebuttable presumption of forced labor under 19 U.S.C. ''
     @ [167] @ u '' 1307.''"

definition sql_aliases :: "pstr list \<Rightarrow> pstr" where
  "sql_aliases as =
     u ''{'' @ str_join (u '','') (map (\<lambda>a. [34] @ escape_sql a @ [34]) as) @ u ''}''"

definition sql_row :: "entity \<Rightarrow> pstr" where
  \<comment> \<open>the body of the loop over \<open>entities\<close>, with \<open>b\<close> and \<open>as\<close> for
      \<^verbatim>\<open>brand\<close> and \<^verbatim>\<open>aliases\<close>; 34 is the double quote\<close>
  "sql_row e =
     (let b = escape_sql (brand e);
          as = sql_aliases (aliases e);
          reason = escape_sql sql_reason
      in u ''  ('' @ [39] @ b @ [39] @ u '', '' @ [39] @ as @ [39] @ u '', ''
           @ [39] @ u ''{'' @ [34] @ u ''general'' @ [34] @ u ''}'' @ [39] @ u '', ''
           @ [39] @ u ''{'' @ [34] @ u ''CN'' @ [34] @ u ''}'' @ [39] @ u '', ''
           @ [39] @ u ''high'' @ [39] @ u '', ''
           @ [39] @ u ''{'' @ [34] @ u ''UFLPA'' @ [34] @ u ''}'' @ [39] @ u '', ''
           @ [39] @ reason @ [39] @ u '', ''
           @ [39] @ u ''2025-01-15'' @ [39] @ u '')'')"

definition generate_sql :: "entity list \<Rightarrow> pstr" where
  "generate_sql entities =
     (let lines = [
            u ''-- UFLPA Entity List (January 15, 2025)'',
            u ''-- Generated by scripts/seed_uflpa.py'',
            u ''-- '' @ str_of_nat (length entities) @ u '' entities'',
            [],
            u ''INSERT INTO companies (brand, aliases, product_categories, countries_of_origin, risk_level, sources, reason, last_updated)'',
            u ''VALUES''];
          rows = map sql_row entities;
          lines = lines @ [str_join (u '','' @ [10]) rows @ u '';'']
      in str_join [10] lines)"

section \<open>Deduplicator\<close>

fun dedup_loop ::
    "entity list \<times> pstr set \<Rightarrow> raw_entry list \<Rightarrow> error + entity list \<times> pstr set" where
  \<comment> \<open>the loop of \<open>main\<close> over \<open>raw_entries\<close>, on the state \<open>(entities, seen)\<close>\<close>
  "dedup_loop st [] = Inr st"
| "dedup_loop (entities, seen) ((t, raw) # raw_entries) =
     (case parse_entry raw of
        Inl e \<Rightarrow> Inl e
      | Inr None \<Rightarrow> dedup_loop (entities, seen) raw_entries
      | Inr (Some entity) \<Rightarrow>
          (let key = lower (brand entity)
           in if key \<notin> seen then dedup_loop (entities @ [entity], insert key seen) raw_entries
              else dedup_loop (entities, seen) raw_entries))"

definition main_entities :: "raw_entry list \<Rightarrow> error + entity list" where
  "main_entities raw_entries =
     (case dedup_loop ([], {}) raw_entries of
        Inl e \<Rightarrow> Inl e
      | Inr (entities, seen) \<Rightarrow> Inr entities)"

definition main :: "pstr \<Rightarrow> error + pstr option" where
  \<comment> \<open>\<open>main\<close> from the extracted text on: the text written to the output file, or None
      when no entity was found\<close>
  "main full_text =
     (let entity_text = get_entity_list_text full_text
      in case split_into_raw_entries entity_text of
           Inl e \<Rightarrow> Inl e
         | Inr raw_entries \<Rightarrow>
             (case main_entities raw_entries of
                Inl e \<Rightarrow> Inl e
              | Inr entities \<Rightarrow>
                  Inr (if entities = [] then None else Some (generate_sql entities))))"

section \<open>Notions used in the statements\<close>

text \<open>
  The definitions of this section are not functions of the script: they name the
  intermediate values of \<open>parse_entry\<close> and the properties that the statements below
  are about.
\<close>

definition collapsed :: "pstr \<Rightarrow> pstr" where
  \<comment> \<open>the whitespace-collapsed text: \<^verbatim>\<open>re.sub(r'\s+', ' ', s).strip()\<close>\<close>
  "collapsed s = strip (re_sub [] ws_plus (u '' '') s)"

definition derived_brand :: "pstr \<Rightarrow> pstr" where
  \<comment> \<open>the value of \<^verbatim>\<open>brand\<close> that \<open>parse_entry\<close> tests and returns\<close>
  "derived_brand raw0 =
     (let raw = collapsed raw0
      in collapsed
           (case re_search [IGNORECASE] ALIAS_PATTERN raw of
              Some (start, _) \<Rightarrow> strip (rstrip_chars (u ''.,;('') (strip (take start raw)))
            | None \<Rightarrow> strip (rstrip_chars (u ''.,;'') (strip raw))))"

definition derived_aliases :: "pstr \<Rightarrow> pstr list" where
  \<comment> \<open>the value of \<^verbatim>\<open>aliases\<close> that \<open>parse_entry\<close> returns\<close>
  "derived_aliases raw0 =
     (case re_search [IGNORECASE] ALIAS_PATTERN (collapsed raw0) of
        Some (_, _, Some raw_aliases) \<Rightarrow>
          map (\<lambda>p. strip (strip_chars (u '';,'') (strip p)))
            (filter (\<lambda>p. strip p \<noteq> [] \<and> 3 < length (strip p))
               (re_split [] alias_sep raw_aliases))
      | _ \<Rightarrow> [])"

definition has_keyword :: "pstr list \<Rightarrow> pstr \<Rightarrow> bool" where
  \<comment> \<open>some keyword of the list occurs in the text, as it is written\<close>
  "has_keyword ks s = (\<exists>k\<in>set ks. sublist k s)"



definition dedup_key :: "entity \<Rightarrow> pstr" where
  "dedup_key e = lower (brand e)"

definition parsed_records :: "raw_entry list \<Rightarrow> entity list" where
  \<comment> \<open>the records that \<open>parse_entry\<close> returns on the raw entries, in their order\<close>
  "parsed_records raw_entries =
     concat (map (\<lambda>(t, raw). case parse_entry raw of Inr (Some e) \<Rightarrow> [e] | _ \<Rightarrow> [])
       raw_entries)"

definition first_seen :: "entity list \<Rightarrow> entity list" where
  \<comment> \<open>the records whose key no earlier record has, in their order\<close>
  "first_seen ps =
     map (nth ps)
       (filter (\<lambda>i. \<forall>j<i. dedup_key (ps ! j) \<noteq> dedup_key (ps ! i)) [0..<length ps])"

function collapse_ws :: "pstr \<Rightarrow> pstr" where
  \<comment> \<open>every run of white space replaced by one space\<close>
  "collapse_ws [] = []"
| "collapse_ws (c # cs) =
     (if isspace c then 32 # collapse_ws (dropWhile isspace cs) else c # collapse_ws cs)"
  by pat_completeness auto
termination
  by (relation "measure length") (auto simp: length_dropWhile_le less_Suc_eq_le)

fun spaced :: "pstr \<Rightarrow> bool" where
  \<comment> \<open>every white-space character is a space and no two of them are adjacent\<close>
  "spaced [] = True"
| "spaced [c] = (if isspace c then c = 32 else True)"
| "spaced (a # b # s) =
     ((if isspace a then a = 32 \<and> \<not> isspace b else True) \<and> spaced (b # s))"

fun keep_new :: "pstr set \<Rightarrow> entity list \<Rightarrow> entity list" where
  \<comment> \<open>the records whose key is neither in \<open>seen\<close> nor the key of an earlier record\<close>
  "keep_new seen [] = []"
| "keep_new seen (e # ps) =
     (if dedup_key e \<in> seen then keep_new seen ps
      else e # keep_new (insert (dedup_key e) seen) ps)"

definition entry_ok :: "pstr \<Rightarrow> bool" where
  \<comment> \<open>what the first line of an accumulated entry satisfies\<close>
  "entry_ok e = ((\<exists>c cs. e = c # cs \<and> isupper c) \<and> has_keyword suffix_keywords e
     \<and> \<not> startswith e (u ''The '') \<and> \<not> startswith e (u ''These ''))"

definition list_inv :: "raw_entry list \<times> pstr option \<Rightarrow> bool" where
  \<comment> \<open>the invariant of the loop over \<open>lines\<close>\<close>
  "list_inv st = ((\<forall>e. (TList, e) \<in> set (fst st) \<longrightarrow> entry_ok e)
     \<and> (\<forall>c. snd st = Some c \<longrightarrow> entry_ok c))"

section \<open>Lemmas on the matcher\<close>

lemma re_split_from_nonempty: "re_split_from fl r i s cur \<noteq> []"
  by (induction fl r i s cur rule: re_split_from.induct) (auto split: option.splits)

lemma re_split_nonempty: "re_split fl r s \<noteq> []"
  by (simp add: re_split_def re_split_from_nonempty)

lemma lit_prefix_plain: "lit_prefix [] w s = prefix w s"
  by (induction "[]::flag list" w s rule: lit_prefix.induct) auto


lemma mt_alts_lits_empty:
  "ks \<noteq> [] \<Longrightarrow>
     mt fl (alts (map Lit ks)) (i, s, g) = [] \<longleftrightarrow> (\<forall>k\<in>set ks. \<not> lit_prefix fl k s)"
proof (induction ks rule: induct_list012)
  case 1 then show ?case by simp
next
  case (2 k) then show ?case by simp
next
  case (3 k k' ks) then show ?case by simp
qed

lemma re_search_from_None:
  "re_search_from fl r i s = None \<longleftrightarrow> (\<forall>n\<le>length s. mt fl r (i + n, drop n s, None) = [])"
proof (induction s arbitrary: i)
  case Nil
  then show ?case by (auto simp: re_match_at_def split: list.splits)
next
  case (Cons c cs)
  have step: "(\<forall>n\<le>length (c # cs). mt fl r (i + n, drop n (c # cs), None) = []) \<longleftrightarrow>
     mt fl r (i, c # cs, None) = [] \<and> (\<forall>n\<le>length cs. mt fl r (Suc i + n, drop n cs, None) = [])"
    (is "?L \<longleftrightarrow> ?R")
  proof
    assume l: ?L
    have a: "mt fl r (i, c # cs, None) = []" using l[rule_format, of 0] by simp
    have b: "mt fl r (Suc i + n, drop n cs, None) = []" if "n \<le> length cs" for n
      using l[rule_format, of "Suc n"] that by simp
    from a b show ?R by blast
  next
    assume r: ?R
    show ?L
    proof (intro allI impI)
      fix n assume "n \<le> length (c # cs)"
      then show "mt fl r (i + n, drop n (c # cs), None) = []"
        using r by (cases n) auto
    qed
  qed
  show ?case
    unfolding step using Cons.IH[of "Suc i"]
    by (auto simp: re_match_at_def split: list.splits option.splits)
qed

lemma sublist_drop_prefix: "sublist k s \<longleftrightarrow> (\<exists>n\<le>length s. prefix k (drop n s))"
proof
  assume "sublist k s"
  then obtain ps ss where "s = ps @ k @ ss" by (auto simp: sublist_def)
  then have "length ps \<le> length s \<and> prefix k (drop (length ps) s)" by simp
  then show "\<exists>n\<le>length s. prefix k (drop n s)" by blast
next
  assume "\<exists>n\<le>length s. prefix k (drop n s)"
  then obtain n zs where "drop n s = k @ zs" by (auto simp: prefix_def)
  then have "s = take n s @ k @ zs" by (metis append_take_drop_id)
  then show "sublist k s" unfolding sublist_def by blast
qed

lemma search_keywords_plain:
  "ks \<noteq> [] \<Longrightarrow> re_search [] (alts (map Lit ks)) s \<noteq> None \<longleftrightarrow> has_keyword ks s"
  unfolding re_search_def re_search_from_None has_keyword_def
  by (auto simp: mt_alts_lits_empty lit_prefix_plain sublist_drop_prefix)


lemma re_match_at_Some:
  "re_match_at fl r i s = Some (j, g) \<Longrightarrow> \<exists>s'. (j, s', g) \<in> set (mt fl r (i, s, None))"
  by (auto simp: re_match_at_def split: list.splits)

lemma re_search_from_Some:
  "re_search_from fl r i s = Some (a, b, g) \<Longrightarrow>
     \<exists>n\<le>length s. a = i + n \<and> re_match_at fl r (i + n) (drop n s) = Some (b, g)"
proof (induction s arbitrary: i)
  case Nil
  then show ?case by (auto split: option.splits)
next
  case (Cons c cs)
  show ?case
  proof (cases "re_match_at fl r i (c # cs)")
    case None
    with Cons.prems have "re_search_from fl r (Suc i) cs = Some (a, b, g)" by simp
    from Cons.IH[OF this] obtain n where "n \<le> length cs" "a = Suc i + n"
      "re_match_at fl r (Suc i + n) (drop n cs) = Some (b, g)" by blast
    then have "Suc n \<le> length (c # cs) \<and> a = i + Suc n
       \<and> re_match_at fl r (i + Suc n) (drop (Suc n) (c # cs)) = Some (b, g)" by simp
    then show ?thesis by blast
  next
    case (Some p)
    with Cons.prems have "a = i" "re_match_at fl r i (c # cs) = Some (b, g)"
      by (auto split: prod.splits)
    then have "0 \<le> length (c # cs) \<and> a = i + 0
       \<and> re_match_at fl r (i + 0) (drop 0 (c # cs)) = Some (b, g)" by simp
    then show ?thesis by blast
  qed
qed

lemma re_search_start_le:
  "re_search fl r s = Some (a, b, g) \<Longrightarrow> a \<le> length s"
  unfolding re_search_def using re_search_from_Some[of fl r 0 s a b g] by auto

lemma re_search_at_start:
  "re_match fl r s = Some (j, g) \<Longrightarrow> re_search fl r s = Some (0, j, g)"
  unfolding re_match_def re_search_def by (cases s) auto

lemma mt_Seq_all:
  "(\<And>st'. \<forall>x\<in>set (mt fl b st'). P x) \<Longrightarrow> \<forall>x\<in>set (mt fl (Seq a b) st). P x"
  by auto

lemma mt_Grp_Lit_group:
  "\<forall>x\<in>set (mt fl (Seq (Grp a) (Lit w)) st). snd (snd x) \<noteq> None"
  by (cases st) (auto split: if_splits)

lemma mt_ALIAS_group: "\<forall>x\<in>set (mt fl ALIAS_PATTERN st). snd (snd x) \<noteq> None"
  unfolding ALIAS_PATTERN_def seqs.simps
  by (intro mt_Seq_all mt_Grp_Lit_group)

lemma search_ALIAS_group:
  "re_search fl ALIAS_PATTERN s = Some (a, b, g) \<Longrightarrow> g \<noteq> None"
proof -
  assume "re_search fl ALIAS_PATTERN s = Some (a, b, g)"
  then have "re_search_from fl ALIAS_PATTERN 0 s = Some (a, b, g)"
    by (simp add: re_search_def)
  from re_search_from_Some[OF this]
  obtain n where "re_match_at fl ALIAS_PATTERN (0 + n) (drop n s) = Some (b, g)" by blast
  from re_match_at_Some[OF this] mt_ALIAS_group show ?thesis by fastforce
qed

lemma cmatch_Space: "cmatch fl Space = isspace"
  by (rule ext) simp

lemma mt_ws_plus:
  "mt fl ws_plus (i, s, g) =
     map (\<lambda>k. (i + k, drop k s, g)) (rev [1..<Suc (length (takeWhile isspace s))])"
  by (simp add: ws_plus_def rep_counts_def cmatch_Space Let_def del: upt_Suc)

lemma match_ws_plus_Nil: "re_match_at fl ws_plus i [] = None"
  by (simp add: re_match_at_def mt_ws_plus)

lemma match_ws_plus_Cons:
  "re_match_at fl ws_plus i (c # cs) =
     (if isspace c then Some (i + Suc (length (takeWhile isspace cs)), None) else None)"
  by (simp add: re_match_at_def mt_ws_plus)

lemma re_sub_ws_plus: "re_sub_from fl ws_plus [32] i s = collapse_ws s"
proof (induction s arbitrary: i rule: collapse_ws.induct)
  case 1
  show ?case by (simp add: match_ws_plus_Nil)
next
  case (2 c cs)
  show ?case
  proof (cases "isspace c")
    case True
    have "drop (length (takeWhile isspace cs)) cs = dropWhile isspace cs"
      by (simp add: dropWhile_eq_drop)
    with True 2(1)[OF True] show ?thesis
      by (simp add: match_ws_plus_Cons)
  next
    case False
    with 2(2)[OF False] show ?thesis by (simp add: match_ws_plus_Cons)
  qed
qed

lemma u_space: "u '' '' = [32]"
  by (simp add: u_def)

section \<open>Lemmas on the Entry Parser\<close>

lemma parse_entry_eq:
  "parse_entry raw0 =
     (if length (collapsed raw0) < 5 then Inr None
      else if length (derived_brand raw0) < 5 then Inr None
      else if re_search [IGNORECASE] brand_suffix (derived_brand raw0) = None then Inr None
      else Inr (Some \<lparr>brand = derived_brand raw0, aliases = derived_aliases raw0\<rparr>))"
proof (cases "re_search [IGNORECASE] ALIAS_PATTERN (collapsed raw0)")
  case None
  have e: "strip (re_sub [] ws_plus (u '' '') raw0) = collapsed raw0"
    by (simp add: collapsed_def)
  show ?thesis
    unfolding parse_entry_def derived_brand_def derived_aliases_def Let_def e None
    by (auto simp: collapsed_def)
next
  case (Some p)
  obtain a b g where p: "p = (a, b, g)" by (cases p)
  from search_ALIAS_group[of "[IGNORECASE]" "collapsed raw0" a b g] Some p
  obtain ra where g: "g = Some ra" by auto
  have e: "strip (re_sub [] ws_plus (u '' '') raw0) = collapsed raw0"
    by (simp add: collapsed_def)
  show ?thesis
    unfolding parse_entry_def derived_brand_def derived_aliases_def Let_def e Some p g
    by (auto simp: collapsed_def)
qed

lemma parse_entry_total: "\<exists>r. parse_entry raw0 = Inr r"
  unfolding parse_entry_eq by simp

section \<open>Lemmas on the Deduplicator\<close>

lemma keep_new_first_seen:
  "keep_new seen ps =
     map (nth ps) (filter (\<lambda>i. dedup_key (ps ! i) \<notin> seen
        \<and> (\<forall>j<i. dedup_key (ps ! j) \<noteq> dedup_key (ps ! i))) [0..<length ps])"
proof (induction ps arbitrary: seen)
  case Nil
  show ?case by simp
next
  case (Cons e ps)
  let ?Q = "\<lambda>i. dedup_key ((e # ps) ! i) \<notin> seen
        \<and> (\<forall>j<i. dedup_key ((e # ps) ! j) \<noteq> dedup_key ((e # ps) ! i))"
  have upt: "[0..<length (e # ps)] = 0 # map Suc [0..<length ps]"
    by (simp add: upt_conv_Cons map_Suc_upt del: upt_Suc)
  have all_Suc: "(\<forall>j<Suc i. P j) \<longleftrightarrow> P 0 \<and> (\<forall>j<i. P (Suc j))" for i and P :: "nat \<Rightarrow> bool"
    by (metis less_Suc_eq_0_disj)
  have QS: "?Q (Suc i) \<longleftrightarrow> dedup_key (ps ! i) \<notin> seen \<and> dedup_key e \<noteq> dedup_key (ps ! i)
       \<and> (\<forall>j<i. dedup_key (ps ! j) \<noteq> dedup_key (ps ! i))" for i
    by (simp add: all_Suc)
  have filt: "filter ?Q [0..<length (e # ps)] =
      (if dedup_key e \<notin> seen then [0] else []) @ map Suc (filter (\<lambda>i. ?Q (Suc i)) [0..<length ps])"
    unfolding upt by (simp add: filter_map comp_def)
  show ?case
  proof (cases "dedup_key e \<in> seen")
    case True
    have "filter (\<lambda>i. ?Q (Suc i)) [0..<length ps] =
        filter (\<lambda>i. dedup_key (ps ! i) \<notin> seen \<and> (\<forall>j<i. dedup_key (ps ! j) \<noteq> dedup_key (ps ! i))) [0..<length ps]"
      unfolding QS using True by (intro filter_cong refl) auto
    then show ?thesis
      unfolding filt using True Cons.IH[of seen] by (simp add: comp_def)
  next
    case False
    have "filter (\<lambda>i. ?Q (Suc i)) [0..<length ps] =
        filter (\<lambda>i. dedup_key (ps ! i) \<notin> insert (dedup_key e) seen
           \<and> (\<forall>j<i. dedup_key (ps ! j) \<noteq> dedup_key (ps ! i))) [0..<length ps]"
      unfolding QS by (intro filter_cong refl) auto
    then show ?thesis
      unfolding filt using False Cons.IH[of "insert (dedup_key e) seen"] by (simp add: comp_def)
  qed
qed

lemma keep_new_keys: "dedup_key ` set (keep_new seen ps) \<inter> seen = {}"
  by (induction ps arbitrary: seen) auto

lemma keep_new_distinct: "distinct (map dedup_key (keep_new seen ps))"
proof (induction ps arbitrary: seen)
  case Nil
  show ?case by simp
next
  case (Cons e ps)
  show ?case
    using Cons.IH keep_new_keys[of "insert (dedup_key e) seen" ps] by auto
qed

lemma dedup_loop_keep_new:
  "(\<And>raw. \<exists>r. parse_entry raw = Inr r) \<Longrightarrow>
   \<exists>seen'. dedup_loop (es, seen) raws = Inr (es @ keep_new seen (parsed_records raws), seen')"
proof (induction raws arbitrary: es seen)
  case Nil
  show ?case by (simp add: parsed_records_def)
next
  case (Cons x raws)
  obtain t raw where x: "x = (t, raw)" by (cases x)
  from Cons.prems obtain r where r: "parse_entry raw = Inr r" by blast
  show ?case
  proof (cases r)
    case None
    with r x Cons.IH[OF Cons.prems, of es seen] show ?thesis
      by (simp add: parsed_records_def)
  next
    case (Some e)
    show ?thesis
    proof (cases "dedup_key e \<in> seen")
      case True
      with Some r x Cons.IH[OF Cons.prems, of es seen] show ?thesis
        by (simp add: parsed_records_def dedup_key_def)
    next
      case False
      with Some r x Cons.IH[OF Cons.prems, of "es @ [e]" "insert (dedup_key e) seen"] show ?thesis
        by (simp add: parsed_records_def dedup_key_def)
    qed
  qed
qed

section \<open>Further lemmas\<close>

lemma startswith_iff: "startswith s p \<longleftrightarrow> prefix p s"
  unfolding startswith_def prefix_def
  by (metis append_eq_conv_conj append_take_drop_id)

lemma rfind_from_range:
  "- 1 \<le> rfind_from s m n \<and> rfind_from s m n \<le> int n"
  by (induction n) auto

lemma rfind_from_none:
  "rfind_from s m n = - 1 \<longleftrightarrow> (\<forall>i\<le>n. \<not> startswith (drop i s) m)"
proof (induction n)
  case 0
  then show ?case by simp
next
  case (Suc n)
  show ?case
  proof (cases "startswith (drop (Suc n) s) m")
    case True
    then show ?thesis by auto
  next
    case False
    then show ?thesis using Suc by (auto simp: le_Suc_eq)
  qed
qed

lemma rfind_from_found:
  "rfind_from s m n = int j \<Longrightarrow>
     j \<le> n \<and> startswith (drop j s) m \<and> (\<forall>i. j < i \<and> i \<le> n \<longrightarrow> \<not> startswith (drop i s) m)"
proof (induction n)
  case 0
  then show ?case by (auto split: if_splits)
next
  case (Suc n)
  show ?case
  proof (cases "startswith (drop (Suc n) s) m")
    case True
    with Suc.prems have "j = Suc n" by simp
    with True show ?thesis by auto
  next
    case False
    with Suc.prems have "rfind_from s m n = int j" by simp
    from Suc.IH[OF this] False show ?thesis by (auto simp: le_Suc_eq)
  qed
qed

lemma occurs_at:
  "s = pre @ m @ post \<Longrightarrow> length pre \<le> length s - length m \<and> startswith (drop (length pre) s) m
     \<and> length m \<le> length s"
  by (simp add: startswith_def)

lemma startswith_split:
  "startswith (drop j s) m \<Longrightarrow> j \<le> length s \<Longrightarrow>
     s = take j s @ m @ drop (j + length m) s \<and> drop j s = m @ drop (j + length m) s"
proof -
  assume a: "startswith (drop j s) m" and "j \<le> length s"
  have "drop j s = take (length m) (drop j s) @ drop (length m) (drop j s)"
    by (rule append_take_drop_id[symmetric])
  also have "\<dots> = m @ drop (j + length m) s" using a by (simp add: startswith_def add.commute)
  finally have d: "drop j s = m @ drop (j + length m) s" .
  have "s = take j s @ drop j s" by simp
  with d show ?thesis by metis
qed




lemma collapsed_Nil: "collapsed [] = []"
  by (simp add: collapsed_def re_sub_def match_ws_plus_Nil strip_def lstrip_def rstrip_def)

lemma main_entities_eq:
  "main_entities raw_entries = Inr (first_seen (parsed_records raw_entries))"
proof -
  obtain seen' where
    l: "dedup_loop ([], {}) raw_entries = Inr ([] @ keep_new {} (parsed_records raw_entries), seen')"
    using dedup_loop_keep_new[OF parse_entry_total, of "[]" "{}" raw_entries] by blast
  have k: "keep_new {} (parsed_records raw_entries) = first_seen (parsed_records raw_entries)"
    unfolding keep_new_first_seen first_seen_def by simp
  from l k show ?thesis
    by (simp add: main_entities_def)
qed

lemma first_seen_distinct: "distinct (map (\<lambda>e. lower (brand e)) (first_seen ps))"
proof -
  have k: "keep_new {} ps = first_seen ps"
    unfolding keep_new_first_seen first_seen_def by simp
  have dk: "dedup_key = (\<lambda>e. lower (brand e))"
    by (rule ext) (simp add: dedup_key_def)
  from keep_new_distinct[of "{}" ps] show ?thesis
    unfolding k dk .
qed

lemma company_suffix_search:
  "re_search [] company_suffix s \<noteq> None \<longleftrightarrow> has_keyword suffix_keywords s"
proof -
  have "suffix_keywords \<noteq> []" by (simp add: suffix_keywords_def)
  then show ?thesis unfolding company_suffix_def by (rule search_keywords_plain)
qed

lemma no_keyword_The: "\<not> has_keyword suffix_keywords (u ''The '')"
  by code_simp

lemma no_keyword_These: "\<not> has_keyword suffix_keywords (u ''These '')"
  by code_simp

lemma has_keyword_prefix: "has_keyword ks s \<Longrightarrow> prefix s t \<Longrightarrow> has_keyword ks t"
  unfolding has_keyword_def prefix_def by (metis sublist_append append.right_neutral sublist_appendI append_Nil2 sublist_order.order.trans prefix_imp_sublist prefixI)

lemma startswith_append:
  "has_keyword ks cur \<Longrightarrow> \<not> has_keyword ks p \<Longrightarrow> \<not> startswith cur p \<Longrightarrow>
     \<not> startswith (cur @ x) p"
proof
  assume k: "has_keyword ks cur" and nk: "\<not> has_keyword ks p" and n: "\<not> startswith cur p"
    and a: "startswith (cur @ x) p"
  from a have "prefix p (cur @ x)" by (simp add: startswith_iff)
  then have "prefix p cur \<or> (\<exists>us. p = cur @ us \<and> prefix us x)" by (simp add: prefix_append)
  with n have "prefix cur p" by (auto simp: startswith_iff)
  with k have "has_keyword ks p" by (rule has_keyword_prefix)
  with nk show False by simp
qed

lemma has_keyword_append: "has_keyword ks s \<Longrightarrow> has_keyword ks (s @ x)"
  using has_keyword_prefix[of ks s "s @ x"] by simp

lemma entry_ok_append: "entry_ok cur \<Longrightarrow> entry_ok (cur @ x)"
  unfolding entry_ok_def
  using no_keyword_The no_keyword_These
  by (auto intro: has_keyword_append dest: startswith_append)

lemma flush_inv:
  "list_inv (entries, current) \<Longrightarrow> list_inv (flush entries current, None)"
  by (auto simp: list_inv_def flush_def split: option.splits)

lemma flush_inv_new:
  "list_inv (entries, current) \<Longrightarrow> entry_ok line \<Longrightarrow> list_inv (flush entries current, Some line)"
  by (auto simp: list_inv_def flush_def split: option.splits)

lemma list_step_inv:
  assumes "list_inv st" and "list_step st line = Inr st'"
  shows "list_inv st'"
proof -
  obtain entries current where st: "st = (entries, current)" by (cases st)
  show ?thesis
  proof (cases "re_match [IGNORECASE] skip_line line \<noteq> None")
    case True
    with assms(2) st have st': "st' = (flush entries current, if truthy current then None else current)"
      by (simp add: list_step_def)
    show ?thesis
    proof (cases "truthy current")
      case True
      with st' assms(1) st show ?thesis by (simp add: flush_inv)
    next
      case False
      with st' assms(1) st show ?thesis
        by (auto simp: list_inv_def flush_def truthy_def split: option.splits)
    qed
  next
    case False
    note nskip = this
    show ?thesis
    proof (cases line)
      case Nil
      with nskip assms(2) st show ?thesis by (simp add: list_step_def)
    next
      case (Cons c0 rest)
      show ?thesis
      proof (cases "isupper c0 \<and> re_search [] company_suffix line \<noteq> None
                  \<and> \<not> startswith line (u ''The '') \<and> \<not> startswith line (u ''These '')")
        case True
        then have ok: "entry_ok line"
          using Cons company_suffix_search[of line] by (auto simp: entry_ok_def)
        from True nskip Cons assms(2) st have "st' = (flush entries current, Some line)"
          by (auto simp add: list_step_def simp del: not_None_eq split: if_splits)
        with assms(1) st ok show ?thesis by (simp add: flush_inv_new)
      next
        case False
        show ?thesis
        proof (cases current)
          case None
          with False nskip Cons assms(2) st have "st' = (entries, current)"
            by (auto simp add: list_step_def simp del: not_None_eq split: if_splits)
          with assms(1) st show ?thesis by simp
        next
          case (Some cur)
          from assms(1) st Some have okc: "entry_ok cur"
            and oke: "\<And>e. (TList, e) \<in> set entries \<Longrightarrow> entry_ok e"
            by (auto simp: list_inv_def)
          from False nskip Cons assms(2) st Some
          have "st' = (entries, current) \<or> st' = (entries, Some (cur @ u '' '' @ line))
              \<or> st' = (entries @ [(TList, cur)], None)"
            by (auto simp add: list_step_def simp del: not_None_eq split: if_splits)
          then show ?thesis
            using okc oke Some entry_ok_append[OF okc, of "u '' '' @ line"]
            by (auto simp: list_inv_def)
        qed
      qed
    qed
  qed
qed

lemma list_loop_inv:
  "list_inv st \<Longrightarrow> list_loop st lines = Inr st' \<Longrightarrow> list_inv st'"
proof (induction lines arbitrary: st)
  case Nil
  then show ?case by simp
next
  case (Cons line lines)
  from Cons.prems(2) obtain st1 where s1: "list_step st line = Inr st1"
    and l1: "list_loop st1 lines = Inr st'"
    by (auto split: sum.splits)
  from list_step_inv[OF Cons.prems(1) s1] l1 show ?case by (rule Cons.IH)
qed

lemma list_step_total: "line \<noteq> [] \<Longrightarrow> \<exists>st'. list_step st line = Inr st'"
  by (cases st; cases line) (auto simp: list_step_def split: option.splits)

lemma list_loop_total: "[] \<notin> set lines \<Longrightarrow> \<exists>st'. list_loop st lines = Inr st'"
proof (induction lines arbitrary: st)
  case Nil
  then show ?case by simp
next
  case (Cons line lines)
  then have "line \<noteq> []" by auto
  from list_step_total[OF this] obtain st1 where "list_step st line = Inr st1" by blast
  with Cons show ?case by auto
qed

lemma list_entries_total: "[] \<notin> set lines \<Longrightarrow> \<exists>es. list_entries entries lines = Inr es"
  using list_loop_total[of lines "(entries, None)"]
  by (auto simp: list_entries_def)

lemma list_entries_ok:
  assumes "\<And>e. (TList, e) \<notin> set entries" and "list_entries entries lines = Inr es"
    and "(TList, e) \<in> set es"
  shows "entry_ok e"
proof -
  from assms(2) obtain entries' current where l: "list_loop (entries, None) lines = Inr (entries', current)"
    and es: "es = flush entries' current"
    by (auto simp: list_entries_def split: sum.splits)
  have "list_inv (entries, None)" using assms(1) by (simp add: list_inv_def)
  from list_loop_inv[OF this l] have "list_inv (flush entries' current, None)" by (rule flush_inv)
  with es assms(3) show ?thesis by (simp add: list_inv_def)
qed

lemma bullet_entries_tag: "(TList, e) \<notin> set (bullet_entries text)"
  by (auto simp: bullet_entries_def)

lemma stripped_lines: "[] \<notin> set (map strip (filter (\<lambda>l. strip l \<noteq> []) xs))"
  by auto

lemma split_into_raw_entries_total: "\<exists>es. split_into_raw_entries text = Inr es"
  unfolding split_into_raw_entries_def Let_def
  using list_entries_total[OF stripped_lines]
  by (auto split: option.splits)

lemma split_into_raw_entries_ok:
  assumes "split_into_raw_entries text = Inr es" and "(TList, e) \<in> set es"
  shows "entry_ok e"
proof (cases "re_search [] list_header text")
  case None
  with assms(1) have "es = bullet_entries text"
    by (simp add: split_into_raw_entries_def)
  with assms(2) bullet_entries_tag show ?thesis by blast
next
  case (Some m)
  obtain start rest where m: "m = (start, rest)" by (cases m)
  from assms(1) Some m
  have "list_entries (bullet_entries text)
          (map strip (filter (\<lambda>l. strip l \<noteq> [])
             (str_split_char 10 (clean_text (drop start text))))) = Inr es"
    by (simp add: split_into_raw_entries_def)
  from list_entries_ok[OF bullet_entries_tag this assms(2)] show ?thesis .
qed


lemma rdrop_decomp:
  "\<exists>w. s = rev (dropWhile P (rev s)) @ w \<and> (\<forall>c\<in>set w. P c)"
proof -
  have "rev (dropWhile P (rev s)) @ rev (takeWhile P (rev s)) =
      rev (takeWhile P (rev s) @ dropWhile P (rev s))"
    by (simp only: rev_append)
  also have "\<dots> = s" by (simp only: takeWhile_dropWhile_id rev_rev_ident)
  finally have "s = rev (dropWhile P (rev s)) @ rev (takeWhile P (rev s))" by (rule sym)
  moreover have "\<forall>c\<in>set (rev (takeWhile P (rev s))). P c"
    by (auto dest: set_takeWhileD)
  ultimately show ?thesis by blast
qed

lemma rdrop_last:
  "rev (dropWhile P (rev s)) \<noteq> [] \<Longrightarrow> \<not> P (last (rev (dropWhile P (rev s))))"
  by (simp add: last_rev hd_dropWhile)

lemma rdrop_id: "s = [] \<or> \<not> P (last s) \<Longrightarrow> rev (dropWhile P (rev s)) = s"
proof (cases s rule: rev_cases)
  case Nil
  then show ?thesis by simp
next
  case (snoc xs x)
  assume "s = [] \<or> \<not> P (last s)"
  with snoc have "\<not> P x" by simp
  with snoc show ?thesis by simp
qed

lemma spaced_append1: "spaced (xs @ ys) \<Longrightarrow> spaced xs"
proof (induction xs rule: spaced.induct)
  case 1
  show ?case by simp
next
  case (2 c)
  then show ?case by (cases ys) (auto split: if_splits)
next
  case (3 a b s)
  then show ?case by (auto split: if_splits)
qed

lemma spaced_Cons: "spaced (x # xs) \<Longrightarrow> spaced xs"
  by (cases xs) auto

lemma spaced_append2: "spaced (xs @ ys) \<Longrightarrow> spaced ys"
  by (induction xs) (auto dest: spaced_Cons)

lemma collapse_ws_hd:
  "collapse_ws s = [] \<or> (if s \<noteq> [] \<and> isspace (hd s) then hd (collapse_ws s) = 32
      else hd (collapse_ws s) = hd s)"
  by (cases s) auto

lemma collapse_spaced: "spaced (collapse_ws s)"
proof (induction s rule: collapse_ws.induct)
  case 1
  show ?case by simp
next
  case (2 c cs)
  show ?case
  proof (cases "isspace c")
    case True
    have nws: "collapse_ws (dropWhile isspace cs) = [] \<or> \<not> isspace (hd (collapse_ws (dropWhile isspace cs)))"
    proof (cases "dropWhile isspace cs")
      case Nil
      show ?thesis unfolding Nil by simp
    next
      case (Cons b s)
      then have "\<not> isspace b" by (metis hd_dropWhile list.sel(1) list.distinct(1))
      with Cons show ?thesis by simp
    qed
    from 2(1)[OF True] nws True show ?thesis
      by (cases "collapse_ws (dropWhile isspace cs)") (auto simp: isspace_def)
  next
    case False
    with 2(2)[OF False] show ?thesis
      by (cases "collapse_ws cs") auto
  qed
qed

lemma spaced_collapse: "spaced s \<Longrightarrow> collapse_ws s = s"
proof (induction s rule: spaced.induct)
  case 1
  show ?case by simp
next
  case (2 c)
  then show ?case by (auto split: if_splits)
next
  case (3 a b s)
  then show ?case by (auto split: if_splits)
qed

lemma spaced_nth:
  "spaced s \<Longrightarrow> Suc i < length s \<Longrightarrow> \<not> (isspace (s ! i) \<and> isspace (s ! Suc i))"
proof (induction s arbitrary: i rule: spaced.induct)
  case 1
  then show ?case by simp
next
  case (2 c)
  then show ?case by simp
next
  case (3 a b s)
  show ?case
  proof (cases i)
    case 0
    with 3 show ?thesis by (auto split: if_splits)
  next
    case (Suc k)
    with 3 show ?thesis by (auto split: if_splits)
  qed
qed

lemma spaced_all_ws: "spaced w \<Longrightarrow> \<forall>c\<in>set w. isspace c \<Longrightarrow> w \<noteq> [] \<Longrightarrow> w = [32]"
proof (cases w)
  case Nil
  assume "w \<noteq> []" with Nil show ?thesis by simp
next
  case (Cons a w')
  assume s: "spaced w" and a: "\<forall>c\<in>set w. isspace c"
  show ?thesis
  proof (cases w')
    case Nil
    with Cons s a show ?thesis by (auto split: if_splits)
  next
    case (Cons b w'')
    with \<open>w = a # w'\<close> s a show ?thesis by (auto split: if_splits)
  qed
qed

lemma strip_decomp:
  "\<exists>a b. s = a @ strip s @ b \<and> (\<forall>c\<in>set a. isspace c) \<and> (\<forall>c\<in>set b. isspace c)"
proof -
  have l: "s = takeWhile isspace s @ lstrip s" by (simp add: lstrip_def)
  obtain w where w: "lstrip s = strip s @ w" "\<forall>c\<in>set w. isspace c"
    using rdrop_decomp[of "lstrip s" isspace] by (auto simp: strip_def rstrip_def)
  from l w have "s = takeWhile isspace s @ strip s @ w" by simp
  moreover have "\<forall>c\<in>set (takeWhile isspace s). isspace c" by (auto dest: set_takeWhileD)
  ultimately show ?thesis using w(2) by blast
qed

lemma strip_spaced: "spaced s \<Longrightarrow> spaced (strip s)"
proof -
  assume s: "spaced s"
  obtain a b where "s = a @ strip s @ b" using strip_decomp by blast
  with s have "spaced (a @ strip s @ b)" by simp
  then show ?thesis by (blast dest: spaced_append1 spaced_append2)
qed

lemma strip_last: "strip s \<noteq> [] \<Longrightarrow> \<not> isspace (last (strip s))"
  unfolding strip_def rstrip_def by (rule rdrop_last)

lemma strip_id: "s = [] \<or> (\<not> isspace (hd s) \<and> \<not> isspace (last s)) \<Longrightarrow> strip s = s"
proof -
  assume a: "s = [] \<or> (\<not> isspace (hd s) \<and> \<not> isspace (last s))"
  then have "lstrip s = s" by (cases s) (auto simp: lstrip_def)
  moreover from a have "rstrip s = s" unfolding rstrip_def by (intro rdrop_id) auto
  ultimately show ?thesis by (simp add: strip_def)
qed

lemma strip_hd: "strip s \<noteq> [] \<Longrightarrow> \<not> isspace (hd (strip s))"
proof -
  assume ne: "strip s \<noteq> []"
  obtain w where w: "lstrip s = strip s @ w"
    using rdrop_decomp[of "lstrip s" isspace] by (auto simp: strip_def rstrip_def)
  with ne have "hd (strip s) = hd (lstrip s)" by simp
  moreover from w ne have "lstrip s \<noteq> []" by auto
  then have "\<not> isspace (hd (lstrip s))" unfolding lstrip_def by (rule hd_dropWhile)
  ultimately show ?thesis by simp
qed

lemma strip_strip: "strip (strip s) = strip s"
  by (rule strip_id) (use strip_hd strip_last in blast)

lemma strip_prefix:
  assumes "x = [] \<or> \<not> isspace (hd x)"
  shows "\<exists>w. x = strip x @ w \<and> (\<forall>c\<in>set w. isspace c)"
proof -
  from assms have "lstrip x = x" by (cases x) (auto simp: lstrip_def)
  then have "strip x = rev (dropWhile isspace (rev x))" by (simp add: strip_def rstrip_def)
  with rdrop_decomp[of x isspace] show ?thesis by simp
qed

lemma collapsed_eq: "collapsed s = strip (collapse_ws s)"
  by (simp add: collapsed_def re_sub_def u_space re_sub_ws_plus)

lemma collapsed_spaced: "spaced (collapsed s)"
  unfolding collapsed_eq by (intro strip_spaced collapse_spaced)

lemma collapsed_trimmed: "strip (collapsed s) = collapsed s"
  unfolding collapsed_eq by (rule strip_strip)

lemma collapsed_hd: "collapsed s = [] \<or> \<not> isspace (hd (collapsed s))"
  unfolding collapsed_eq using strip_hd by blast

lemma collapsed_id: "spaced t \<Longrightarrow> strip t = t \<Longrightarrow> collapsed t = t"
  by (simp add: collapsed_eq spaced_collapse)

lemma prefix_hd: "prefix x r \<Longrightarrow> x \<noteq> [] \<Longrightarrow> hd x = hd r"
  by (auto simp: prefix_def)

lemma brand_shape:
  assumes sp: "spaced r" and hd: "r = [] \<or> \<not> isspace (hd r)" and px: "prefix x r"
    and b_def: "b = collapsed (strip (rstrip_chars P (strip x)))"
  shows "strip b = b \<and> spaced b
    \<and> (b \<noteq> [] \<and> last b \<in> set P \<longrightarrow> (\<exists>p\<in>set P. prefix (b @ [32, p]) r))"
proof -
  define y where "y = strip x"
  define z where "z = rstrip_chars P y"
  define t where "t = strip z"
  from px sp have spx: "spaced x" by (auto simp: prefix_def dest: spaced_append1)
  have hdx: "x = [] \<or> \<not> isspace (hd x)" using prefix_hd[OF px] hd px by (cases "x = []") auto
  from strip_prefix[OF hdx] obtain w1 where w1: "x = y @ w1" by (auto simp: y_def)
  then have py: "prefix y r" using px by (auto simp: prefix_def)
  have spy: "spaced y" unfolding y_def using spx by (rule strip_spaced)
  obtain ps where ps: "y = z @ ps" "\<forall>c\<in>set ps. c \<in> set P"
    using rdrop_decomp[of y "\<lambda>c. c \<in> set P"] by (auto simp: z_def rstrip_chars_def)
  from ps py have pz: "prefix z r" by (auto simp: prefix_def)
  from ps spy have spz: "spaced z" by (auto dest: spaced_append1)
  have hdz: "z = [] \<or> \<not> isspace (hd z)" using prefix_hd[OF pz] hd pz by (cases "z = []") auto
  from strip_prefix[OF hdz] obtain w where w: "z = t @ w" "\<forall>c\<in>set w. isspace c"
    by (auto simp: t_def)
  from w spz have spt: "spaced t" by (auto dest: spaced_append1)
  have tt: "strip t = t" unfolding t_def by (rule strip_strip)
  have bt: "b = t" unfolding b_def using collapsed_id[OF spt tt] by (simp add: t_def z_def y_def)
  have last_part: "\<exists>p\<in>set P. prefix (b @ [32, p]) r" if ne: "b \<noteq> []" and lp: "last b \<in> set P"
  proof -
    have wne: "w \<noteq> []"
    proof
      assume "w = []"
      with w bt have zb: "z = b" by simp
      with ne have "rev (dropWhile (\<lambda>c. c \<in> set P) (rev y)) \<noteq> []"
        by (simp add: z_def rstrip_chars_def)
      from rdrop_last[OF this] have "last z \<notin> set P" by (simp add: z_def rstrip_chars_def)
      with zb lp show False by simp
    qed
    have psne: "ps \<noteq> []"
    proof
      assume "ps = []"
      with ps w have yw: "y = t @ w" by simp
      with wne have "y \<noteq> []" and "last y = last w" by auto
      moreover from wne w(2) have "isspace (last w)" by auto
      ultimately show False using strip_last[of x] by (simp add: y_def)
    qed
    from w spz have "spaced w" by (auto dest: spaced_append2)
    from spaced_all_ws[OF this w(2) wne] have w32: "w = [32]" .
    from psne obtain p ps' where pp: "ps = p # ps'" by (cases ps) auto
    with ps(2) have "p \<in> set P" by simp
    moreover from ps(1) w(1) w32 pp bt have "y = (b @ [32, p]) @ ps'" by simp
    then have "prefix (b @ [32, p]) y" by (metis prefixI)
    with py have "prefix (b @ [32, p]) r" by (auto simp: prefix_def)
    ultimately show ?thesis by blast
  qed
  from bt tt spt last_part show ?thesis by blast
qed

lemma u_punct: "u ''.,;('' = [46, 44, 59, 40]" "u ''.,;'' = [46, 44, 59]"
  by (simp_all add: u_def)

lemma derived_brand_shape:
  "strip (derived_brand raw) = derived_brand raw \<and> spaced (derived_brand raw)
   \<and> (derived_brand raw \<noteq> [] \<and> last (derived_brand raw) \<in> {46, 44, 59} \<longrightarrow>
        (\<exists>p\<in>{46, 44, 59, 40}. prefix (derived_brand raw @ [32, p]) (collapsed raw)))"
proof (cases "re_search [IGNORECASE] ALIAS_PATTERN (collapsed raw)")
  case None
  have b: "derived_brand raw = collapsed (strip (rstrip_chars [46, 44, 59] (strip (collapsed raw))))"
    by (simp add: derived_brand_def None u_punct)
  from brand_shape[OF collapsed_spaced collapsed_hd prefix_order.refl b]
  show ?thesis by auto
next
  case (Some m)
  obtain start rest where m: "m = (start, rest)" by (cases m)
  have b: "derived_brand raw =
      collapsed (strip (rstrip_chars [46, 44, 59, 40] (strip (take start (collapsed raw)))))"
    by (simp add: derived_brand_def Some m u_punct)
  from brand_shape[OF collapsed_spaced collapsed_hd take_is_prefix b]
  show ?thesis by auto
qed

section \<open>Section Locator: the last occurrence\<close>

text \<open>
  C2: when the marker \<^verbatim>\<open>Appendix 1\<close> occurs in the text, the Section Locator returns
  the text from the last occurrence of the marker to the end; when it does not occur, it
  returns the text unchanged.
\<close>

theorem get_entity_list_text_last_occurrence:
  "(sublist (u ''Appendix 1'') full_text \<longrightarrow>
      (\<exists>pre post. full_text = pre @ u ''Appendix 1'' @ post
         \<and> get_entity_list_text full_text = u ''Appendix 1'' @ post
         \<and> (\<forall>pre' post'. full_text = pre' @ u ''Appendix 1'' @ post' \<longrightarrow> length pre' \<le> length pre)))
   \<and> (\<not> sublist (u ''Appendix 1'') full_text \<longrightarrow> get_entity_list_text full_text = full_text)"
proof (intro conjI impI)
  let ?m = "u ''Appendix 1''"
  assume "sublist ?m full_text"
  then obtain ps ss where occ: "full_text = ps @ ?m @ ss" by (auto simp: sublist_def)
  from occurs_at[OF occ] have len: "length ?m \<le> length full_text"
    and le: "length ps \<le> length full_text - length ?m"
    and sw: "startswith (drop (length ps) full_text) ?m" by auto
  let ?n = "length full_text - length ?m"
  have "rfind_from full_text ?m ?n \<noteq> - 1"
    using rfind_from_none[of full_text ?m ?n] le sw by blast
  define j where "j = nat (rfind_from full_text ?m ?n)"
  have j: "rfind_from full_text ?m ?n = int j"
    using rfind_from_range[of full_text ?m ?n] \<open>rfind_from full_text ?m ?n \<noteq> - 1\<close>
    by (simp add: j_def)
  from rfind_from_found[OF j] have jn: "j \<le> ?n" and jsw: "startswith (drop j full_text) ?m"
    and jmax: "\<And>i. j < i \<Longrightarrow> i \<le> ?n \<Longrightarrow> \<not> startswith (drop i full_text) ?m" by auto
  from jn len have jl: "j \<le> length full_text" by simp
  from startswith_split[OF jsw jl]
  have sp: "full_text = take j full_text @ ?m @ drop (j + length ?m) full_text"
    and dr: "drop j full_text = ?m @ drop (j + length ?m) full_text" by auto
  have rf: "rfind full_text ?m = int j" using len j by (simp add: rfind_def)
  have res: "get_entity_list_text full_text = ?m @ drop (j + length ?m) full_text"
    unfolding get_entity_list_text_def Let_def rf using dr by simp
  have mx: "length pre' \<le> length (take j full_text)" if "full_text = pre' @ ?m @ post'" for pre' post'
  proof (rule ccontr)
    assume "\<not> length pre' \<le> length (take j full_text)"
    then have "j < length pre'" using jl by simp
    moreover from occurs_at[OF that] have "length pre' \<le> ?n" "startswith (drop (length pre') full_text) ?m" by auto
    ultimately show False using jmax by blast
  qed
  show "\<exists>pre post. full_text = pre @ ?m @ post \<and> get_entity_list_text full_text = ?m @ post
         \<and> (\<forall>pre' post'. full_text = pre' @ ?m @ post' \<longrightarrow> length pre' \<le> length pre)"
    using sp res mx by blast
next
  let ?m = "u ''Appendix 1''"
  assume ns: "\<not> sublist ?m full_text"
  have "rfind full_text ?m = - 1"
  proof (cases "length full_text < length ?m")
    case True
    then show ?thesis by (simp add: rfind_def)
  next
    case False
    have "\<not> startswith (drop i full_text) ?m" if "i \<le> length full_text - length ?m" for i
    proof
      assume a: "startswith (drop i full_text) ?m"
      from that False have "i \<le> length full_text" by simp
      from startswith_split[OF a this] have "full_text = take i full_text @ ?m @ drop (i + length ?m) full_text" by simp
      then have "sublist ?m full_text" unfolding sublist_def by blast
      with ns show False by simp
    qed
    then have "rfind_from full_text ?m (length full_text - length ?m) = - 1"
      using rfind_from_none by blast
    with False show ?thesis by (simp add: rfind_def)
  qed
  then show "get_entity_list_text full_text = full_text"
    by (simp add: get_entity_list_text_def)
qed

theorem get_entity_list_text_witness:
  "sublist (u ''Appendix 1'') (u ''see Appendix 1, then Appendix 1: list'')
   \<and> get_entity_list_text (u ''see Appendix 1, then Appendix 1: list'') = u ''Appendix 1: list''
   \<and> \<not> sublist (u ''Appendix 1'') (u ''no marker'')
   \<and> get_entity_list_text (u ''no marker'') = u ''no marker''"
proof -
  have a: "sublist (u ''Appendix 1'') (u ''see Appendix 1, then Appendix 1: list'')" by code_simp
  have b: "\<not> sublist (u ''Appendix 1'') (u ''no marker'')" by code_simp
  have c: "get_entity_list_text (u ''see Appendix 1, then Appendix 1: list'') = u ''Appendix 1: list''" by code_simp
  from get_entity_list_text_last_occurrence[of "u ''no marker''"] b
  have d: "get_entity_list_text (u ''no marker'') = u ''no marker''" by blast
  from a b c d show ?thesis by blast
qed

section \<open>Deduplicator: one record for each key, in the order of first occurrence\<close>

text \<open>
  C3: for every sequence of raw entries the loop of \<open>main\<close> returns the records that
  \<open>parse_entry\<close> yields, each kept exactly when no earlier record has the same
  lower-cased brand, in the order of the raw entries; no two of the records returned
  have the same lower-cased brand.
\<close>

theorem main_entities_first_seen:
  "main_entities raw_entries = Inr (first_seen (parsed_records raw_entries))
   \<and> distinct (map (\<lambda>e. lower (brand e)) (first_seen (parsed_records raw_entries)))"
  using main_entities_eq first_seen_distinct by blast

theorem main_entities_witness:
  "first_seen (parsed_records
     [(TBullet, [321, 243, 100, 378] @ u '' Mining Corp''),
      (TList, [322, 243, 100, 378] @ u '' mining corp.''),
      (TList, u ''short''), (TList, u ''Beta Holdings Group'')]) =
     [\<lparr>brand = [321, 243, 100, 378] @ u '' Mining Corp'', aliases = []\<rparr>,
      \<lparr>brand = u ''Beta Holdings Group'', aliases = []\<rparr>]"
proof -
  have "main_entities
     [(TBullet, [321, 243, 100, 378] @ u '' Mining Corp''),
      (TList, [322, 243, 100, 378] @ u '' mining corp.''),
      (TList, u ''short''), (TList, u ''Beta Holdings Group'')] =
     Inr [\<lparr>brand = [321, 243, 100, 378] @ u '' Mining Corp'', aliases = []\<rparr>,
      \<lparr>brand = u ''Beta Holdings Group'', aliases = []\<rparr>]"
    by code_simp
  with main_entities_first_seen[of "[(TBullet, [321, 243, 100, 378] @ u '' Mining Corp''),
      (TList, [322, 243, 100, 378] @ u '' mining corp.''),
      (TList, u ''short''), (TList, u ''Beta Holdings Group'')]"]
  show ?thesis by simp
qed

section \<open>Entry Parser: what is rejected and what is returned\<close>





text \<open>
  C10: when the alias pattern matches the whitespace-collapsed input at position 0, the
  Entry Parser returns None, whatever the alias clause holds: the brand before the clause
  is empty.
\<close>

theorem parse_entry_leading_alias_clause:
  "re_match [IGNORECASE] ALIAS_PATTERN (collapsed raw) \<noteq> None \<Longrightarrow> parse_entry raw = Inr None"
proof -
  assume "re_match [IGNORECASE] ALIAS_PATTERN (collapsed raw) \<noteq> None"
  then obtain j g where "re_match [IGNORECASE] ALIAS_PATTERN (collapsed raw) = Some (j, g)"
    by auto
  then have "re_search [IGNORECASE] ALIAS_PATTERN (collapsed raw) = Some (0, j, g)"
    by (rule re_search_at_start)
  then have "derived_brand raw = []"
    by (simp add: derived_brand_def strip_def lstrip_def rstrip_def rstrip_chars_def
        collapsed_Nil)
  then show ?thesis
    unfolding parse_entry_eq by simp
qed

theorem parse_entry_leading_alias_clause_witness:
  "re_match [IGNORECASE] ALIAS_PATTERN
      (collapsed (u ''(al'' @ [383] @ u ''o known as Foo Mining Corp. and Bar Holdings Ltd.)'')) \<noteq> None
   \<and> parse_entry (u ''(al'' @ [383] @ u ''o known as Foo Mining Corp. and Bar Holdings Ltd.)'') = Inr None"
proof -
  have h: "re_match [IGNORECASE] ALIAS_PATTERN
      (collapsed (u ''(al'' @ [383] @ u ''o known as Foo Mining Corp. and Bar Holdings Ltd.)'')) \<noteq> None"
    by code_simp
  from h parse_entry_leading_alias_clause[OF h] show ?thesis by blast
qed

section \<open>Entry Segmenter: the entries of the list section\<close>

text \<open>
  C9: the Entry Segmenter raises on no text, and every entry that it emits with the list
  tag begins with an upper-case character, holds one of the keywords of the segmentation
  set as it is written, and starts neither with \<^verbatim>\<open>The \<close> nor with \<^verbatim>\<open>These \<close>.
\<close>

theorem split_into_raw_entries_list_entries:
  "(\<exists>es'. split_into_raw_entries text = Inr es')
   \<and> (split_into_raw_entries text = Inr es \<longrightarrow> (TList, e) \<in> set es \<longrightarrow>
        (\<exists>c cs. e = c # cs \<and> isupper c)
        \<and> (\<exists>k\<in>set suffix_keywords. sublist k e)
        \<and> \<not> startswith e (u ''The '') \<and> \<not> startswith e (u ''These ''))"
proof (intro conjI impI)
  show "\<exists>es'. split_into_raw_entries text = Inr es'"
    by (rule split_into_raw_entries_total)
next
  assume a: "split_into_raw_entries text = Inr es" "(TList, e) \<in> set es"
  have ok: "entry_ok e" by (rule split_into_raw_entries_ok[OF a])
  from ok show "\<exists>c cs. e = c # cs \<and> isupper c" by (simp add: entry_ok_def)
  from ok show "\<exists>k\<in>set suffix_keywords. sublist k e"
    by (simp add: entry_ok_def has_keyword_def)
  from ok show "\<not> startswith e (u ''The '')" by (simp add: entry_ok_def)
  from ok show "\<not> startswith e (u ''These '')" by (simp add: entry_ok_def)
qed

theorem split_into_raw_entries_witness:
  "split_into_raw_entries
     (u ''Added: '' @ [8226] @ u '' Foo  Mining Corp. some description. UFLPA Section 2(d)(2)(B)(i) A List of Entities''
      @ [10] @ [352] @ u ''koda Mining Co.'' @ [10] @ u '' (also known as Skoda) '' @ [10]
      @ u ''The FLETF Park'' @ [10, 10] @ u ''Gamma Energy Co., Ltd.; and'' @ [10] @ u ''7 ?'') =
     Inr [(TBullet, u ''Foo Mining Corp. some description.''),
          (TList, [352] @ u ''koda Mining Co. (also known as Skoda)''),
          (TList, u ''Gamma Energy Co., Ltd.; and'')]
   \<and> (\<exists>c cs. [352] @ u ''koda Mining Co. (also known as Skoda)'' = c # cs \<and> isupper c)
   \<and> (\<exists>k\<in>set suffix_keywords. sublist k ([352] @ u ''koda Mining Co. (also known as Skoda)''))
   \<and> \<not> startswith ([352] @ u ''koda Mining Co. (also known as Skoda)'') (u ''The '')
   \<and> \<not> startswith ([352] @ u ''koda Mining Co. (also known as Skoda)'') (u ''These '')"
proof -
  let ?t = "u ''Added: '' @ [8226] @ u '' Foo  Mining Corp. some description. UFLPA Section 2(d)(2)(B)(i) A List of Entities''
      @ [10] @ [352] @ u ''koda Mining Co.'' @ [10] @ u '' (also known as Skoda) '' @ [10]
      @ u ''The FLETF Park'' @ [10, 10] @ u ''Gamma Energy Co., Ltd.; and'' @ [10] @ u ''7 ?''"
  let ?es = "[(TBullet, u ''Foo Mining Corp. some description.''),
          (TList, [352] @ u ''koda Mining Co. (also known as Skoda)''),
          (TList, u ''Gamma Energy Co., Ltd.; and'')]"
  have h: "split_into_raw_entries ?t = Inr ?es" by code_simp
  have m: "(TList, [352] @ u ''koda Mining Co. (also known as Skoda)'') \<in> set ?es" by simp
  from split_into_raw_entries_list_entries[of ?t ?es "[352] @ u ''koda Mining Co. (also known as Skoda)''"] h m
  show ?thesis by blast
qed

section \<open>SQL Renderer: quotes and alias arrays\<close>


section \<open>Entry Parser: the shape of the brand\<close>

text \<open>
  C8, as amended: the brand of a record that the Entry Parser returns is trimmed and has
  no two consecutive white-space characters; its last character is one of
  \<^verbatim>\<open>.\<close>, \<^verbatim>\<open>,\<close> and \<^verbatim>\<open>;\<close> only where the whitespace-collapsed input goes on,
  after the brand, with a space and then one of the characters \<^verbatim>\<open>.\<close>, \<^verbatim>\<open>,\<close>,
  \<^verbatim>\<open>;\<close> and \<^verbatim>\<open>(\<close>.
\<close>

theorem parse_entry_brand_shape:
  "parse_entry raw = Inr (Some e) \<Longrightarrow>
     strip (brand e) = brand e
     \<and> (\<forall>i. Suc i < length (brand e) \<longrightarrow>
           \<not> (isspace (brand e ! i) \<and> isspace (brand e ! Suc i)))
     \<and> (last (brand e) \<in> {46, 44, 59} \<longrightarrow>
           (\<exists>p\<in>{46, 44, 59, 40}. prefix (brand e @ [32, p]) (collapsed raw)))"
proof -
  assume "parse_entry raw = Inr (Some e)"
  then have b: "brand e = derived_brand raw" and ne: "derived_brand raw \<noteq> []"
    unfolding parse_entry_eq by (auto split: if_splits)
  from derived_brand_shape[of raw] ne b spaced_nth[of "derived_brand raw"]
  show ?thesis by auto
qed

theorem parse_entry_brand_shape_witness:
  "parse_entry ([12288] @ u ''Foo'' @ [12288, 12288] @ u ''Corp. '' @ [12288] @ u '','') =
      Inr (Some \<lparr>brand = u ''Foo Corp.'', aliases = []\<rparr>)
   \<and> strip (u ''Foo Corp.'') = u ''Foo Corp.''
   \<and> (\<exists>p\<in>{46, 44, 59, 40}. prefix (u ''Foo Corp.'' @ [32, p])
         (collapsed ([12288] @ u ''Foo'' @ [12288, 12288] @ u ''Corp. '' @ [12288] @ u '','')))"
proof -
  have h: "parse_entry ([12288] @ u ''Foo'' @ [12288, 12288] @ u ''Corp. '' @ [12288] @ u '','') =
      Inr (Some \<lparr>brand = u ''Foo Corp.'', aliases = []\<rparr>)"
    by code_simp
  have l: "last (brand \<lparr>brand = u ''Foo Corp.'', aliases = []\<rparr>) \<in> {46, 44, 59}"
    by (simp add: u_def)
  have s: "brand \<lparr>brand = u ''Foo Corp.'', aliases = []\<rparr> = u ''Foo Corp.''" by simp
  from parse_entry_brand_shape[OF h, unfolded s] l[unfolded s] h show ?thesis by blast
qed

text \<open>
  C8, as stated, fails: for the input \<^verbatim>\<open>Foo Corp. ,\<close> the Entry Parser returns the
  brand \<^verbatim>\<open>Foo Corp.\<close>, whose last character is a period.
\<close>

theorem parse_entry_brand_ends_with_period:
  "parse_entry (u ''Foo Corp. ,'') = Inr (Some \<lparr>brand = u ''Foo Corp.'', aliases = []\<rparr>)
   \<and> last (brand \<lparr>brand = u ''Foo Corp.'', aliases = []\<rparr>) = 46"
proof
  show "parse_entry (u ''Foo Corp. ,'') = Inr (Some \<lparr>brand = u ''Foo Corp.'', aliases = []\<rparr>)"
    by code_simp
  show "last (brand \<lparr>brand = u ''Foo Corp.'', aliases = []\<rparr>) = 46"
    by (simp add: u_def)
qed

section \<open>Worked examples\<close>

text \<open>
  C1, as amended: for the input
  \<^verbatim>\<open>Acme Textile Co. (also known as Acme Textiles; and Acme Tex)\<close> the Entry Parser
  returns the aliases \<^verbatim>\<open>Acme Textiles\<close> and \<^verbatim>\<open>Acme Tex\<close>, in that order, and the
  brand \<^verbatim>\<open>Acme Textile Co\<close>: the trailing period is stripped with the rest of the
  trailing punctuation.
\<close>

theorem parse_entry_acme:
  "parse_entry (u ''Acme Textile Co. (also known as Acme Textiles; and Acme Tex)'') =
     Inr (Some \<lparr>brand = u ''Acme Textile Co'',
                 aliases = [u ''Acme Textiles'', u ''Acme Tex'']\<rparr>)"
  by code_simp

text \<open>
  C1, as stated, fails: the record returned for that input does not have the brand
  \<^verbatim>\<open>Acme Textile Co.\<close> with the period.
\<close>

theorem parse_entry_acme_keeps_no_period:
  "parse_entry (u ''Acme Textile Co. (also known as Acme Textiles; and Acme Tex)'') \<noteq>
     Inr (Some \<lparr>brand = u ''Acme Textile Co.'',
                 aliases = [u ''Acme Textiles'', u ''Acme Tex'']\<rparr>)"
  by code_simp

text \<open>
  C7: on the two lines \<^verbatim>\<open>Beta Holdings Group\<close> and \<^verbatim>\<open>(a subsidiary of Gamma)\<close>
  and nothing more, the accumulator of the list section emits one entry, tagged as a
  list entry: the two lines joined by a space.
\<close>

theorem list_entries_continuation:
  "list_entries [] [u ''Beta Holdings Group'', u ''(a subsidiary of Gamma)''] =
     Inr [(TList, u ''Beta Holdings Group (a subsidiary of Gamma)'')]"
  by code_simp

end
